theory Spec2Isabelle
  imports Main
begin

section \<open>Python values, exceptions and the world\<close>

text \<open>
  The module is a thin layer over SQLAlchemy. Its own code is modelled function by
  function; every call that leaves the module (the session, the query, the engine
  factory, \<open>json.dumps\<close>, \<open>isoformat\<close>, \<open>inflection.underscore\<close>, a model's
  constructor) is a parameter of the model, so the theorems hold for every behaviour of
  those collaborators, including raising.
\<close>

text \<open>
  Exceptions. \<open>except Exception\<close> catches the instances of \<open>Exception\<close> only:
  \<open>NonException\<close> stands for an instance of a \<open>BaseException\<close> subclass outside
  \<open>Exception\<close> (\<open>KeyboardInterrupt\<close>, \<open>SystemExit\<close>, \<open>GeneratorExit\<close>).
\<close>

datatype py_exn =
    AttributeError string
  | TypeError string
  | OtherException string
  | NonException string

fun is_Exception :: "py_exn \<Rightarrow> bool" where
  "is_Exception (NonException _) = False"
| "is_Exception _ = True"

text \<open>
  Values. \<open>VDatetime\<close>, \<open>VArrow\<close> and \<open>VArrowType\<close> are instances of
  \<open>datetime.datetime\<close>, \<open>arrow.Arrow\<close> and \<open>sqlalchemy_utils.ArrowType\<close>;
  \<open>VDescriptor\<close> is the \<open>ModelTableNameDescriptor\<close> instance; \<open>VObj\<close> is a
  reference to a model instance; \<open>VOther\<close> is any other object (a date, a time,
  ...), one with the default equality (identity) and the default truth value. None of
  these values is callable.
\<close>

datatype pyval =
    VNone
  | VBool bool
  | VInt int
  | VStr string
  | VDatetime nat
  | VArrow nat
  | VArrowType nat
  | VDescriptor
  | VObj nat
  | VOther nat

text \<open>
  The world: the attribute dictionaries of the model instances (by reference), and the
  state of everything outside the module (session, database), of a type the model does
  not look into.
\<close>

record 's world =
  heap :: "nat \<Rightarrow> string \<rightharpoonup> pyval"
  ext :: 's

type_synonym ('s, 'a) action = "'s world \<Rightarrow> (py_exn + 'a) \<times> 's world"

section \<open>BaseQuery\<close>

text \<open>
  \<open>Query.get\<close> and \<open>Query.first\<close> are SQLAlchemy's; they are the two fields of
  the query the methods are called on.
\<close>

record 's query =
  query_get :: "pyval \<Rightarrow> ('s, pyval) action"
  query_first :: "('s, pyval) action"

text \<open>
  The \<open>error\<close> argument: an exception instance, a callable (what calling it with no
  argument does), or any other object. Calling what is not callable raises
  \<open>TypeError\<close>; an exception instance is not callable.
\<close>

datatype 's error_arg =
    ErrorInstance py_exn
  | ErrorCallable "('s, pyval) action"
  | ErrorOther

fun isinstance_Exception :: "'s error_arg \<Rightarrow> bool" where
  "isinstance_Exception (ErrorInstance e) = is_Exception e"
| "isinstance_Exception _ = False"

fun call_error :: "'s error_arg \<Rightarrow> ('s, pyval) action" where
  "call_error (ErrorCallable f) w = f w"
| "call_error _ w = (Inl (TypeError ''object is not callable''), w)"

text \<open>The part of both methods after \<open>rv\<close> is bound: lines 84-88 and 95-99.\<close>

definition or_error :: "pyval \<Rightarrow> 's error_arg \<Rightarrow> ('s, pyval) action" where
  "or_error rv error w =
     (if rv = VNone then
        (case error of
           ErrorInstance e \<Rightarrow>
             if isinstance_Exception error then (Inl e, w) else call_error error w
         | _ \<Rightarrow> call_error error w)
      else (Inr rv, w))"

definition get_or_error ::
  "'s query \<Rightarrow> pyval \<Rightarrow> 's error_arg \<Rightarrow> ('s, pyval) action" where
  "get_or_error self uid error w =
     (case query_get self uid w of
        (Inl e, w1) \<Rightarrow> (Inl e, w1)
      | (Inr rv, w1) \<Rightarrow> or_error rv error w1)"

definition first_or_error :: "'s query \<Rightarrow> 's error_arg \<Rightarrow> ('s, pyval) action" where
  "first_or_error self error w =
     (case query_first self w of
        (Inl e, w1) \<Rightarrow> (Inl e, w1)
      | (Inr rv, w1) \<Rightarrow> or_error rv error w1)"

section \<open>ActiveAlchemy and EngineConnector\<close>

text \<open>
  \<open>make_url(uri)\<close> is SQLAlchemy's; its result is kept as an opaque value. A Python
  \<open>dict\<close> is an association list in insertion order, with distinct keys.
\<close>

datatype url = URL string

type_synonym py_dict = "(string \<times> pyval) list"

definition dict_get :: "py_dict \<Rightarrow> string \<Rightarrow> pyval" where
  "dict_get d k = (case map_of d k of None \<Rightarrow> VNone | Some v \<Rightarrow> v)"

fun dict_setitem :: "py_dict \<Rightarrow> string \<Rightarrow> pyval \<Rightarrow> py_dict" where
  "dict_setitem [] k v = [(k, v)]"
| "dict_setitem ((k', v') # d) k v =
     (if k' = k then (k', v) # d else (k', v') # dict_setitem d k v)"

text \<open>
  An \<open>EngineConnector\<close>: \<open>_engine\<close> (a reference to an engine, or \<open>None\<close>) and
  \<open>_connected_for\<close> (a pair \<open>(uri, echo)\<close>, or \<open>None\<close>). Its \<open>_sa_obj\<close> is
  the argument \<open>sa_obj\<close> of \<open>get_engine\<close>, read at each call as the source reads
  \<open>self._sa_obj.uri\<close>. The lock is taken and released within one call and has no
  effect on a sequential run.
\<close>

record engine_connector =
  c_engine :: "nat option"
  c_connected_for :: "(string option \<times> pyval) option"

record active_alchemy =
  uri :: "string option"
  info :: "url option"
  options :: py_dict
  connector :: "engine_connector option"
  session :: "nat option"

definition EngineConnector_init :: engine_connector where
  "EngineConnector_init = \<lparr>c_engine = None, c_connected_for = None\<rparr>"

text \<open>
  Python's \<open>==\<close> on the values an \<open>echo\<close> can be: \<open>True == 1\<close> and
  \<open>False == 0\<close>; anything else is equal to itself only.
\<close>

fun py_norm :: "pyval \<Rightarrow> pyval" where
  "py_norm (VBool b) = VInt (if b then 1 else 0)"
| "py_norm v = v"

definition py_eq :: "pyval \<Rightarrow> pyval \<Rightarrow> bool" where
  "py_eq a b = (py_norm a = py_norm b)"

text \<open>\<open>(uri, echo) == self._connected_for\<close>: a tuple is never equal to \<open>None\<close>.\<close>

definition key_eq :: "string option \<times> pyval \<Rightarrow> string option \<times> pyval \<Rightarrow> bool" where
  "key_eq k k' = (fst k = fst k' \<and> py_eq (snd k) (snd k'))"

definition connected_key :: "active_alchemy \<Rightarrow> string option \<times> pyval" where
  "connected_key sa_obj = (uri sa_obj, dict_get (options sa_obj) ''echo'')"

definition is_connected_for :: "active_alchemy \<Rightarrow> engine_connector \<Rightarrow> bool" where
  "is_connected_for sa_obj self =
     (case c_connected_for self of
        None \<Rightarrow> False
      | Some k \<Rightarrow> key_eq (connected_key sa_obj) k)"

text \<open>
  \<open>sqlalchemy.create_engine\<close> is a parameter: whether the call raises, from its
  arguments. An engine it returns is a new object; the engines created so far are a
  list of the arguments each was created from, and an engine is known by its index.
\<close>

type_synonym create_engine_fn = "url option \<Rightarrow> py_dict \<Rightarrow> py_exn option"

type_synonym engines = "(url option \<times> py_dict) list"

definition get_engine ::
  "create_engine_fn \<Rightarrow> active_alchemy \<Rightarrow> engine_connector \<Rightarrow> engines \<Rightarrow>
   (py_exn + nat option) \<times> engine_connector \<times> engines" where
  "get_engine create_engine sa_obj self es =
     (if is_connected_for sa_obj self then (Inr (c_engine self), self, es)
      else
        (case create_engine (info sa_obj) (options sa_obj) of
           Some e \<Rightarrow> (Inl e, self, es)
         | None \<Rightarrow>
             (Inr (Some (length es)),
              self\<lparr>c_engine := Some (length es),
                   c_connected_for := Some (connected_key sa_obj)\<rparr>,
              es @ [(info sa_obj, options sa_obj)])))"

text \<open>The property \<open>ActiveAlchemy.engine\<close>.\<close>

definition engine ::
  "create_engine_fn \<Rightarrow> active_alchemy \<Rightarrow> engines \<Rightarrow>
   (py_exn + nat option) \<times> active_alchemy \<times> engines" where
  "engine create_engine self es =
     (let c = (case connector self of None \<Rightarrow> EngineConnector_init | Some c \<Rightarrow> c);
          self1 = self\<lparr>connector := Some c\<rparr>
      in case get_engine create_engine self1 c es of
           (r, c', es') \<Rightarrow> (r, self1\<lparr>connector := Some c'\<rparr>, es'))"

text \<open>
  The proxies \<open>add\<close>, \<open>commit\<close> and \<open>rollback\<close> of \<open>ActiveAlchemy\<close>, and the
  session behind them. The session's methods are SQLAlchemy's: fields of \<open>orm\<close>,
  taking the session's reference. \<open>self.session\<close> is \<open>None\<close> for an
  \<open>ActiveAlchemy\<close> made without a uri, and an attribute of \<open>None\<close> raises
  \<open>AttributeError\<close> (which carries the attribute's name). \<open>construct\<close> is
  \<open>cls(**kwargs)\<close>, the constructor that declarative gives a model class.
  \<open>descr_set\<close> gives the data descriptors of the model class (instrumented
  attributes, properties with a setter): for an attribute name, what its \<open>__set__\<close>
  does, if the class has one.
\<close>

record 's orm =
  session_add :: "nat \<Rightarrow> nat \<Rightarrow> ('s, pyval) action"
  session_delete :: "nat \<Rightarrow> nat \<Rightarrow> ('s, pyval) action"
  session_commit :: "nat \<Rightarrow> ('s, pyval) action"
  session_rollback :: "nat \<Rightarrow> ('s, pyval) action"
  construct :: "nat \<Rightarrow> py_dict \<Rightarrow> ('s, nat) action"
  descr_set :: "string \<Rightarrow> (nat \<Rightarrow> pyval \<Rightarrow> ('s, pyval) action) option"

definition add :: "'s orm \<Rightarrow> active_alchemy \<Rightarrow> nat \<Rightarrow> ('s, pyval) action" where
  "add orm self x w =
     (case session self of
        None \<Rightarrow> (Inl (AttributeError ''add''), w)
      | Some s \<Rightarrow> session_add orm s x w)"

definition commit :: "'s orm \<Rightarrow> active_alchemy \<Rightarrow> ('s, pyval) action" where
  "commit orm self w =
     (case session self of
        None \<Rightarrow> (Inl (AttributeError ''commit''), w)
      | Some s \<Rightarrow> session_commit orm s w)"

definition rollback :: "'s orm \<Rightarrow> active_alchemy \<Rightarrow> ('s, pyval) action" where
  "rollback orm self w =
     (case session self of
        None \<Rightarrow> (Inl (AttributeError ''rollback''), w)
      | Some s \<Rightarrow> session_rollback orm s w)"

text \<open>The state of \<open>ActiveAlchemy()\<close>, made with no uri.\<close>

definition ActiveAlchemy_no_uri :: active_alchemy where
  "ActiveAlchemy_no_uri =
     \<lparr>uri = None, info = None, options = [], connector = None, session = None\<rparr>"

section \<open>BaseModel\<close>

text \<open>
  A model instance is a reference into the heap, and the heap holds its own
  attributes (its \<open>__dict__\<close>). Its class is a model class that has \<open>save\<close> and
  \<open>db\<close> as \<open>BaseModel\<close> has them: a method, and the \<open>ActiveAlchemy\<close> that
  \<open>__init__\<close> stored on the base class, the argument \<open>db\<close>. Neither is a data
  descriptor, so an attribute of that name on the instance itself is found first.
\<close>

text \<open>
  \<open>self.db\<close>: the instance's own attribute \<open>db\<close> if it has one, the class's
  otherwise. The instance's own is a plain value, and no plain value has an attribute
  \<open>add\<close>, \<open>commit\<close>, \<open>rollback\<close> or \<open>session\<close>: the result is then
  \<open>None\<close> here.
\<close>

definition self_db :: "active_alchemy \<Rightarrow> 's world \<Rightarrow> nat \<Rightarrow> active_alchemy option" where
  "self_db db w self =
     (case heap w self ''db'' of
        None \<Rightarrow> Some db
      | Some v \<Rightarrow> None)"

text \<open>\<open>self.db.add(self)\<close>, \<open>self.db.commit()\<close> and \<open>self.db.rollback()\<close>.\<close>

definition self_db_add :: "'s orm \<Rightarrow> active_alchemy \<Rightarrow> nat \<Rightarrow> ('s, pyval) action" where
  "self_db_add orm db self w =
     (case self_db db w self of
        None \<Rightarrow> (Inl (AttributeError ''add''), w)
      | Some d \<Rightarrow> add orm d self w)"

definition self_db_commit :: "'s orm \<Rightarrow> active_alchemy \<Rightarrow> nat \<Rightarrow> ('s, pyval) action" where
  "self_db_commit orm db self w =
     (case self_db db w self of
        None \<Rightarrow> (Inl (AttributeError ''commit''), w)
      | Some d \<Rightarrow> commit orm d w)"

definition self_db_rollback :: "'s orm \<Rightarrow> active_alchemy \<Rightarrow> nat \<Rightarrow> ('s, pyval) action" where
  "self_db_rollback orm db self w =
     (case self_db db w self of
        None \<Rightarrow> (Inl (AttributeError ''rollback''), w)
      | Some d \<Rightarrow> rollback orm d w)"

text \<open>\<open>self.db.session.delete(self)\<close>: the session itself, not a proxy.\<close>

definition self_db_session_delete ::
  "'s orm \<Rightarrow> active_alchemy \<Rightarrow> nat \<Rightarrow> ('s, pyval) action" where
  "self_db_session_delete orm db self w =
     (case self_db db w self of
        None \<Rightarrow> (Inl (AttributeError ''session''), w)
      | Some d \<Rightarrow>
          (case session d of
             None \<Rightarrow> (Inl (AttributeError ''delete''), w)
           | Some s \<Rightarrow> session_delete orm s self w))"

text \<open>
  The handler of \<open>save\<close> and \<open>delete\<close>:
  \<open>except Exception as e: self.db.rollback(); raise e\<close>.
\<close>

definition except_Exception ::
  "'s orm \<Rightarrow> active_alchemy \<Rightarrow> nat \<Rightarrow> py_exn \<Rightarrow> ('s, 'a) action" where
  "except_Exception orm db self e w =
     (if is_Exception e then
        (case self_db_rollback orm db self w of
           (Inl e', w') \<Rightarrow> (Inl e', w')
         | (Inr _, w') \<Rightarrow> (Inl e, w'))
      else (Inl e, w))"

definition save :: "'s orm \<Rightarrow> active_alchemy \<Rightarrow> nat \<Rightarrow> ('s, nat) action" where
  "save orm db self w =
     (case self_db_add orm db self w of
        (Inl e, w1) \<Rightarrow> except_Exception orm db self e w1
      | (Inr _, w1) \<Rightarrow>
          (case self_db_commit orm db self w1 of
             (Inl e, w2) \<Rightarrow> except_Exception orm db self e w2
           | (Inr _, w2) \<Rightarrow> (Inr self, w2)))"

text \<open>
  \<open>delete\<close> returns what \<open>commit\<close> returns. Its two parameters are \<open>delete\<close>
  and \<open>hard_delete\<close>.
\<close>

definition delete ::
  "'s orm \<Rightarrow> active_alchemy \<Rightarrow> nat \<Rightarrow> pyval \<Rightarrow> pyval \<Rightarrow> ('s, pyval) action" where
  "delete orm db self delete_arg hard_delete w =
     (case self_db_session_delete orm db self w of
        (Inl e, w1) \<Rightarrow> except_Exception orm db self e w1
      | (Inr _, w1) \<Rightarrow>
          (case self_db_commit orm db self w1 of
             (Inl e, w2) \<Rightarrow> except_Exception orm db self e w2
           | (Inr r, w2) \<Rightarrow> (Inr r, w2)))"

text \<open>
  \<open>setattr(self, k, v)\<close>: a data descriptor of the class for \<open>k\<close> takes the
  assignment, and may raise or do anything; without one the value is stored in the
  instance's own attributes.
\<close>

definition store :: "nat \<Rightarrow> string \<Rightarrow> pyval \<Rightarrow> 's world \<Rightarrow> 's world" where
  "store obj k v w = w\<lparr>heap := (heap w)(obj := (heap w obj)(k \<mapsto> v))\<rparr>"


definition getattr :: "'s world \<Rightarrow> nat \<Rightarrow> string \<Rightarrow> py_exn + pyval" where
  "getattr w obj k =
     (case heap w obj k of
        None \<Rightarrow> Inl (AttributeError k)
      | Some v \<Rightarrow> Inr v)"





text \<open>
  \<open>to_dict\<close>: the comprehension over \<open>self.__table__.columns\<close>, whose names are the
  argument \<open>columns\<close>, in the table's order.
\<close>

fun to_dict_loop :: "'s world \<Rightarrow> nat \<Rightarrow> string list \<Rightarrow> py_dict \<Rightarrow> py_exn + py_dict" where
  "to_dict_loop w self [] d = Inr d"
| "to_dict_loop w self (c # columns) d =
     (case getattr w self c of
        Inl e \<Rightarrow> Inl e
      | Inr v \<Rightarrow> to_dict_loop w self columns (dict_setitem d c v))"

definition to_dict :: "'s world \<Rightarrow> nat \<Rightarrow> string list \<Rightarrow> py_exn + py_dict" where
  "to_dict w self columns = to_dict_loop w self columns []"

text \<open>
  \<open>to_json\<close>. \<open>v.isoformat()\<close> and \<open>json.dumps\<close> are parameters, and either may
  raise.
\<close>

fun isinstance_datetime :: "pyval \<Rightarrow> bool" where
  "isinstance_datetime (VDatetime _) = True"
| "isinstance_datetime (VArrowType _) = True"
| "isinstance_datetime (VArrow _) = True"
| "isinstance_datetime _ = False"

fun to_json_loop ::
  "(pyval \<Rightarrow> py_exn + string) \<Rightarrow> py_dict \<Rightarrow> py_dict \<Rightarrow> py_exn + py_dict" where
  "to_json_loop isoformat [] data = Inr data"
| "to_json_loop isoformat ((k, v) # items) data =
     (if isinstance_datetime v then
        (case isoformat v of
           Inl e \<Rightarrow> Inl e
         | Inr s \<Rightarrow> to_json_loop isoformat items (dict_setitem data k (VStr s)))
      else to_json_loop isoformat items (dict_setitem data k v))"

definition to_json ::
  "(pyval \<Rightarrow> py_exn + string) \<Rightarrow> (py_dict \<Rightarrow> py_exn + string) \<Rightarrow>
   's world \<Rightarrow> nat \<Rightarrow> string list \<Rightarrow> py_exn + string" where
  "to_json isoformat dumps w self columns =
     (case to_dict w self columns of
        Inl e \<Rightarrow> Inl e
      | Inr d \<Rightarrow>
          (case to_json_loop isoformat d [] of
             Inl e \<Rightarrow> Inl e
           | Inr data \<Rightarrow> dumps data))"

text \<open>The mapping the claim describes: each datetime-like value as its ISO string.\<close>

definition iso_values :: "(pyval \<Rightarrow> string) \<Rightarrow> py_dict \<Rightarrow> py_dict" where
  "iso_values fmt d =
     map (\<lambda>(k, v). (k, if isinstance_datetime v then VStr (fmt v) else v)) d"

section \<open>ModelTableNameDescriptor\<close>

text \<open>
  A class: its \<open>__name__\<close>, the entry \<open>__tablename__\<close> of its own \<open>__dict__\<close> (if
  any) and the rest of its \<open>__mro__\<close>, as references to classes.
\<close>

record py_class =
  cls_name :: string
  cls_tablename :: "pyval option"
  cls_mro :: "nat list"

type_synonym classes = "nat \<Rightarrow> py_class"

fun truthy :: "pyval \<Rightarrow> bool" where
  "truthy VNone = False"
| "truthy (VBool b) = b"
| "truthy (VInt i) = (i \<noteq> 0)"
| "truthy (VStr s) = (s \<noteq> [])"
| "truthy _ = True"

text \<open>
  \<open>ModelTableNameDescriptor.__get__(self, obj, type)\<close>; \<open>inflection.underscore\<close>
  is a parameter.
\<close>

definition ModelTableNameDescriptor_get ::
  "(string \<Rightarrow> string) \<Rightarrow> classes \<Rightarrow> nat \<Rightarrow> pyval \<times> classes" where
  "ModelTableNameDescriptor_get underscore cs cls =
     (let tablename = (case cls_tablename (cs cls) of None \<Rightarrow> VNone | Some v \<Rightarrow> v)
      in if \<not> truthy tablename then
           (VStr (underscore (cls_name (cs cls))),
            cs(cls := (cs cls)\<lparr>cls_tablename := Some (VStr (underscore (cls_name (cs cls))))\<rparr>))
         else (tablename, cs))"

text \<open>
  Reading \<open>cls.__tablename__\<close>, as Python looks a class attribute up: the first entry
  along the \<open>__mro__\<close> of \<open>cls\<close>, starting at \<open>cls\<close> itself; the descriptor is
  called with \<open>cls\<close>, any other value is the result as it is.
\<close>

fun lookup_tablename :: "classes \<Rightarrow> nat list \<Rightarrow> pyval option" where
  "lookup_tablename cs [] = None"
| "lookup_tablename cs (c # mro) =
     (case cls_tablename (cs c) of
        Some v \<Rightarrow> Some v
      | None \<Rightarrow> lookup_tablename cs mro)"

definition read_tablename ::
  "(string \<Rightarrow> string) \<Rightarrow> classes \<Rightarrow> nat \<Rightarrow> (py_exn + pyval) \<times> classes" where
  "read_tablename underscore cs cls =
     (case lookup_tablename cs (cls # cls_mro (cs cls)) of
        None \<Rightarrow> (Inl (AttributeError ''__tablename__''), cs)
      | Some v \<Rightarrow>
          if v = VDescriptor then
            (case ModelTableNameDescriptor_get underscore cs cls of
               (tablename, cs') \<Rightarrow> (Inr tablename, cs'))
          else (Inr v, cs))"

section \<open>Threads\<close>

text \<open>
  Concurrent calls of the property \<open>engine\<close> and of \<open>get_engine\<close> on the installed
  connector, one statement at a time. A thread is at a place of the code (\<open>pc\<close>):
  the \<open>E_\<close> places are lines 443-448, the \<open>G_\<close> places lines 129-138, and a
  \<open>G_\<close> place records whether \<open>get_engine\<close> was called from the property (which
  then still holds the lock of the object) and on which connector. \<open>with lock\<close>
  takes a free lock and waits for a held one; leaving the block, by \<open>return\<close> or by
  an exception, releases it. The object's \<open>uri\<close>, \<open>info\<close> and \<open>options\<close> do
  not change while the threads run.
\<close>

datatype pc =
    Idle
  | E_acquire
  | E_read
  | E_test "nat option"
  | E_new
  | E_install nat
  | G_acquire bool nat
  | G_check bool nat
  | G_create bool nat
  | G_set_engine bool nat nat
  | G_set_key bool nat nat
  | G_release bool nat "py_exn + nat option"
  | E_release "py_exn + nat option"
  | Done "py_exn + nat option"

text \<open>
  The shared state: the place of each thread; \<open>self.connector\<close>; the owner of
  \<open>self._engine_lock\<close>; the connectors made so far, each with the owner of its
  \<open>_lock\<close>; the engines made so far; and the connectors assigned to
  \<open>self.connector\<close> so far, in order.
\<close>

record threads =
  t_pc :: "nat \<Rightarrow> pc"
  t_connector :: "nat option"
  t_engine_lock :: "nat option"
  t_conns :: "nat \<Rightarrow> engine_connector"
  t_locks :: "nat \<Rightarrow> nat option"
  t_n_conns :: nat
  t_engines :: engines
  t_installed :: "nat list"

text \<open>What an idle thread calls next: \<open>db.engine\<close>, or \<open>db.connector.get_engine()\<close>.\<close>

datatype call_choice = Engine_property | Get_engine

definition goto :: "nat \<Rightarrow> pc \<Rightarrow> threads \<Rightarrow> threads" where
  "goto t p s = s\<lparr>t_pc := (t_pc s)(t := p)\<rparr>"

text \<open>
  One step of thread \<open>t\<close>; \<open>None\<close> when the thread waits for a lock. Creating the
  engine and the two assignments of lines 136-137 are three steps.
\<close>

definition step ::
  "create_engine_fn \<Rightarrow> active_alchemy \<Rightarrow> nat \<Rightarrow> call_choice \<Rightarrow> threads \<Rightarrow> threads option" where
  "step create_engine sa_obj t choice s =
     (case t_pc s t of
        Idle \<Rightarrow>
          (case choice of
             Engine_property \<Rightarrow> Some (goto t E_acquire s)
           | Get_engine \<Rightarrow>
               (case t_connector s of
                  None \<Rightarrow> Some (goto t (Done (Inl (AttributeError ''get_engine''))) s)
                | Some c \<Rightarrow> Some (goto t (G_acquire False c) s)))
      | E_acquire \<Rightarrow>
          (if t_engine_lock s = None
           then Some (goto t E_read (s\<lparr>t_engine_lock := Some t\<rparr>))
           else None)
      | E_read \<Rightarrow> Some (goto t (E_test (t_connector s)) s)
      | E_test None \<Rightarrow> Some (goto t E_new s)
      | E_test (Some c) \<Rightarrow> Some (goto t (G_acquire True c) s)
      | E_new \<Rightarrow>
          Some (goto t (E_install (t_n_conns s))
            (s\<lparr>t_conns := (t_conns s)(t_n_conns s := EngineConnector_init),
               t_locks := (t_locks s)(t_n_conns s := None),
               t_n_conns := Suc (t_n_conns s)\<rparr>))
      | E_install c \<Rightarrow>
          Some (goto t (G_acquire True c)
            (s\<lparr>t_connector := Some c, t_installed := t_installed s @ [c]\<rparr>))
      | G_acquire b c \<Rightarrow>
          (if t_locks s c = None
           then Some (goto t (G_check b c) (s\<lparr>t_locks := (t_locks s)(c := Some t)\<rparr>))
           else None)
      | G_check b c \<Rightarrow>
          (if is_connected_for sa_obj (t_conns s c)
           then Some (goto t (G_release b c (Inr (c_engine (t_conns s c)))) s)
           else Some (goto t (G_create b c) s))
      | G_create b c \<Rightarrow>
          (case create_engine (info sa_obj) (options sa_obj) of
             Some e \<Rightarrow> Some (goto t (G_release b c (Inl e)) s)
           | None \<Rightarrow>
               Some (goto t (G_set_engine b c (length (t_engines s)))
                 (s\<lparr>t_engines := t_engines s @ [(info sa_obj, options sa_obj)]\<rparr>)))
      | G_set_engine b c e \<Rightarrow>
          Some (goto t (G_set_key b c e)
            (s\<lparr>t_conns := (t_conns s)(c := (t_conns s c)\<lparr>c_engine := Some e\<rparr>)\<rparr>))
      | G_set_key b c e \<Rightarrow>
          Some (goto t (G_release b c (Inr (Some e)))
            (s\<lparr>t_conns := (t_conns s)
                 (c := (t_conns s c)\<lparr>c_connected_for := Some (connected_key sa_obj)\<rparr>)\<rparr>))
      | G_release b c r \<Rightarrow>
          Some (goto t (if b then E_release r else Done r)
            (s\<lparr>t_locks := (t_locks s)(c := None)\<rparr>))
      | E_release r \<Rightarrow> Some (goto t (Done r) (s\<lparr>t_engine_lock := None\<rparr>))
      | Done r \<Rightarrow> Some (goto t Idle s))"

text \<open>An interleaving is a schedule: which thread moves, step after step.\<close>

fun run ::
  "create_engine_fn \<Rightarrow> active_alchemy \<Rightarrow> (nat \<times> call_choice) list \<Rightarrow> threads \<Rightarrow>
   threads option" where
  "run create_engine sa_obj [] s = Some s"
| "run create_engine sa_obj ((t, choice) # schedule) s =
     (case step create_engine sa_obj t choice s of
        None \<Rightarrow> None
      | Some s' \<Rightarrow> run create_engine sa_obj schedule s')"

definition threads_init :: threads where
  "threads_init =
     \<lparr>t_pc = (\<lambda>t. Idle), t_connector = None, t_engine_lock = None,
      t_conns = (\<lambda>c. EngineConnector_init), t_locks = (\<lambda>c. None), t_n_conns = 0,
      t_engines = [], t_installed = []\<rparr>"



text \<open>
  The invariant of the interleavings: what holds at each place of a thread, and what
  holds of the shared state whenever a lock is free.
\<close>

definition n_ok :: "threads \<Rightarrow> bool" where
  "n_ok s = (t_n_conns s = (if t_connector s = None then 0 else 1))"

definition cache_ok :: "active_alchemy \<Rightarrow> threads \<Rightarrow> bool" where
  "cache_ok sa_obj s =
     (if c_connected_for (t_conns s 0) = None then t_engines s = []
      else is_connected_for sa_obj (t_conns s 0) \<and> length (t_engines s) = 1)"

definition in_property :: "threads \<Rightarrow> nat \<Rightarrow> bool \<Rightarrow> bool" where
  "in_property s t b = (b \<longrightarrow> t_engine_lock s = Some t \<and> t_n_conns s = 1)"

fun local_ok :: "active_alchemy \<Rightarrow> threads \<Rightarrow> nat \<Rightarrow> pc \<Rightarrow> bool" where
  "local_ok sa_obj s t Idle = True"
| "local_ok sa_obj s t E_acquire = True"
| "local_ok sa_obj s t E_read = (t_engine_lock s = Some t \<and> n_ok s)"
| "local_ok sa_obj s t (E_test x) = (t_engine_lock s = Some t \<and> n_ok s \<and> x = t_connector s)"
| "local_ok sa_obj s t E_new =
     (t_engine_lock s = Some t \<and> t_connector s = None \<and> t_n_conns s = 0)"
| "local_ok sa_obj s t (E_install c) =
     (t_engine_lock s = Some t \<and> t_connector s = None \<and> t_n_conns s = 1 \<and> c = 0)"
| "local_ok sa_obj s t (G_acquire b c) =
     (in_property s t b \<and> t_connector s = Some 0 \<and> c = 0)"
| "local_ok sa_obj s t (G_check b c) =
     (in_property s t b \<and> t_connector s = Some 0 \<and> c = 0 \<and> t_locks s 0 = Some t \<and>
      cache_ok sa_obj s)"
| "local_ok sa_obj s t (G_create b c) =
     (in_property s t b \<and> t_connector s = Some 0 \<and> c = 0 \<and> t_locks s 0 = Some t \<and>
      c_connected_for (t_conns s 0) = None \<and> t_engines s = [])"
| "local_ok sa_obj s t (G_set_engine b c e) =
     (in_property s t b \<and> t_connector s = Some 0 \<and> c = 0 \<and> t_locks s 0 = Some t \<and>
      c_connected_for (t_conns s 0) = None \<and> length (t_engines s) = 1)"
| "local_ok sa_obj s t (G_set_key b c e) =
     (in_property s t b \<and> t_connector s = Some 0 \<and> c = 0 \<and> t_locks s 0 = Some t \<and>
      c_connected_for (t_conns s 0) = None \<and> length (t_engines s) = 1)"
| "local_ok sa_obj s t (G_release b c r) =
     (in_property s t b \<and> t_connector s = Some 0 \<and> c = 0 \<and> t_locks s 0 = Some t \<and>
      cache_ok sa_obj s)"
| "local_ok sa_obj s t (E_release r) =
     (t_engine_lock s = Some t \<and> t_connector s = Some 0 \<and> t_n_conns s = 1)"
| "local_ok sa_obj s t (Done r) = True"

definition global_ok :: "active_alchemy \<Rightarrow> threads \<Rightarrow> bool" where
  "global_ok sa_obj s =
     ((t_engine_lock s = None \<longrightarrow> n_ok s) \<and>
      (t_locks s 0 = None \<longrightarrow> cache_ok sa_obj s) \<and>
      (t_connector s = None \<or> t_connector s = Some 0) \<and>
      t_installed s = (case t_connector s of None \<Rightarrow> [] | Some c \<Rightarrow> [c]) \<and>
      (t_connector s = None \<longrightarrow>
         t_conns s 0 = EngineConnector_init \<and> t_engines s = [] \<and> t_locks s 0 = None) \<and>
      length (t_engines s) \<le> 1)"

definition inv :: "active_alchemy \<Rightarrow> threads \<Rightarrow> bool" where
  "inv sa_obj s = ((\<forall>t. local_ok sa_obj s t (t_pc s t)) \<and> global_ok sa_obj s)"

section \<open>Collaborators for the examples\<close>

text \<open>
  A query whose every lookup returns a fixed value, and a session that records the
  calls it receives, with the session and the instance of each, in \<open>ext\<close> and
  answers each with a fixed outcome. Its constructor makes instance 1 and sets each
  keyword argument as an attribute, as the declarative constructor does; its class has
  no data descriptor.
\<close>

definition const_query :: "pyval \<Rightarrow> 's query" where
  "const_query rv =
     \<lparr>query_get = (\<lambda>uid w. (Inr rv, w)), query_first = (\<lambda>w. (Inr rv, w))\<rparr>"

datatype call =
    Add nat nat
  | Delete nat nat
  | Commit nat
  | Rollback nat
  | Construct nat py_dict

definition world0 :: "call list world" where
  "world0 = \<lparr>heap = (\<lambda>r. Map.empty), ext = []\<rparr>"

definition logged :: "call \<Rightarrow> py_exn + 'a \<Rightarrow> (call list, 'a) action" where
  "logged c r w = (r, w\<lparr>ext := ext w @ [c]\<rparr>)"

definition log_orm ::
  "py_exn + pyval \<Rightarrow> py_exn + pyval \<Rightarrow> py_exn + pyval \<Rightarrow> py_exn + pyval \<Rightarrow>
   call list orm" where
  "log_orm r_add r_delete r_commit r_rollback =
     \<lparr>session_add = (\<lambda>s x. logged (Add s x) r_add),
      session_delete = (\<lambda>s x. logged (Delete s x) r_delete),
      session_commit = (\<lambda>s. logged (Commit s) r_commit),
      session_rollback = (\<lambda>s. logged (Rollback s) r_rollback),
      construct = (\<lambda>cls kwargs w.
        (Inr 1, w\<lparr>heap := (heap w)(1 := map_of kwargs), ext := ext w @ [Construct cls kwargs]\<rparr>)),
      descr_set = (\<lambda>k. None)\<rparr>"

text \<open>
  The state of \<open>ActiveAlchemy('sqlite:///app.db')\<close>: \<open>__init__\<close> keeps the options
  that are not \<open>None\<close> (\<open>echo=False\<close>), and making the session has read
  \<open>self.engine\<close>, which installed the connector and created engine 0. The session
  is object 3.
\<close>

definition ActiveAlchemy_sqlite :: active_alchemy where
  "ActiveAlchemy_sqlite =
     \<lparr>uri = Some ''sqlite:///app.db'', info = Some (URL ''sqlite:///app.db''),
      options = [(''echo'', VBool False)],
      connector = Some \<lparr>c_engine = Some 0,
        c_connected_for = Some (Some ''sqlite:///app.db'', VBool False)\<rparr>,
      session = Some 3\<rparr>"

text \<open>An action that leaves every instance's attributes as they were.\<close>

definition keeps_heap :: "('s, 'a) action \<Rightarrow> bool" where
  "keeps_heap f = (\<forall>w. heap (snd (f w)) = heap w)"

text \<open>A world with one instance, 1, of a model with the columns \<open>id\<close> and \<open>name\<close>.\<close>

definition world1 :: "call list world" where
  "world1 =
     \<lparr>heap = (\<lambda>r. if r = 1 then [''id'' \<mapsto> VInt 1, ''name'' \<mapsto> VStr ''ann''] else Map.empty),
      ext = []\<rparr>"


definition isoformat_example :: "pyval \<Rightarrow> py_exn + string" where
  "isoformat_example v =
     (if v = VDatetime 0 then Inr ''2024-01-02T03:04:05''
      else Inl (AttributeError ''isoformat''))"

definition dumps_example :: "py_dict \<Rightarrow> py_exn + string" where
  \<open>dumps_example d =
     (if d = [(''id'', VInt 1), (''created'', VStr ''2024-01-02T03:04:05'')]
      then Inr ''{"id": 1, "created": "2024-01-02T03:04:05"}''
      else Inl (TypeError ''not JSON serializable''))\<close>

definition loads_example :: "string \<Rightarrow> py_dict option" where
  \<open>loads_example s =
     (if s = ''{"id": 1, "created": "2024-01-02T03:04:05"}''
      then Some [(''id'', VInt 1), (''created'', VStr ''2024-01-02T03:04:05'')]
      else None)\<close>


text \<open>
  Classes for the examples: 0 is \<open>BaseModel\<close>, whose \<open>__dict__\<close> holds the
  descriptor; 1 is the declarative base made from it; \<open>User\<close> (2) and \<open>Person\<close> (4)
  derive from the base, \<open>Person\<close> with \<open>__tablename__ = 'people'\<close>; \<open>Admin\<close> (3)
  derives from \<open>User\<close>. \<open>underscore_example\<close> is \<open>inflection.underscore\<close> on
  these names.
\<close>

definition classes0 :: classes where
  "classes0 c =
     (if c = 0 then \<lparr>cls_name = ''BaseModel'', cls_tablename = Some VDescriptor, cls_mro = []\<rparr>
      else if c = 1 then \<lparr>cls_name = ''BaseModel'', cls_tablename = None, cls_mro = [0]\<rparr>
      else if c = 2 then \<lparr>cls_name = ''User'', cls_tablename = None, cls_mro = [1, 0]\<rparr>
      else if c = 3 then \<lparr>cls_name = ''Admin'', cls_tablename = None, cls_mro = [2, 1, 0]\<rparr>
      else if c = 4 then
        \<lparr>cls_name = ''Person'', cls_tablename = Some (VStr ''people''), cls_mro = [1, 0]\<rparr>
      else \<lparr>cls_name = ''object'', cls_tablename = None, cls_mro = []\<rparr>)"

definition underscore_example :: "string \<Rightarrow> string" where
  "underscore_example name =
     (if name = ''User'' then ''user''
      else if name = ''Admin'' then ''admin''
      else if name = ''Person'' then ''person''
      else if name = ''BaseModel'' then ''base_model''
      else name)"

text \<open>
  An engine factory for the examples: it raises without a url, as
  \<open>create_engine(None)\<close> does, and returns an engine otherwise.
\<close>

definition create_engine_example :: create_engine_fn where
  "create_engine_example url_arg kwargs =
     (case url_arg of
        None \<Rightarrow> Some (OtherException ''ArgumentError'')
      | Some u \<Rightarrow> None)"





text \<open>The same object after \<open>db.uri\<close> and \<open>db.info\<close> are set to another database.\<close>

definition ActiveAlchemy_moved :: active_alchemy where
  "ActiveAlchemy_moved =
     ActiveAlchemy_sqlite\<lparr>uri := Some ''sqlite:///other.db'', info := Some (URL ''sqlite:///other.db'')\<rparr>"

text \<open>
  An interleaving of three threads: thread 0 reads \<open>db.engine\<close> and installs the
  connector; thread 2 then calls \<open>get_engine\<close> on it and creates the engine while
  thread 0 waits for the connector's lock; thread 0 finishes, and thread 1 reads
  \<open>db.engine\<close>.
\<close>

definition interleaving :: "(nat \<times> call_choice) list" where
  "interleaving =
     [(0, Engine_property), (0, Engine_property), (0, Engine_property), (0, Engine_property),
      (0, Engine_property), (0, Engine_property), (2, Get_engine), (2, Get_engine),
      (2, Get_engine), (2, Get_engine), (2, Get_engine), (2, Get_engine),
      (2, Get_engine), (0, Engine_property), (0, Engine_property), (0, Engine_property),
      (0, Engine_property), (1, Engine_property), (1, Engine_property), (1, Engine_property),
      (1, Engine_property), (1, Engine_property), (1, Engine_property), (1, Engine_property),
      (1, Engine_property)]"

definition threads_final :: threads where
  "threads_final =
     \<lparr>t_pc = (\<lambda>t. if t = 0 \<or> t = 1 \<or> t = 2 then Done (Inr (Some 0)) else Idle),
      t_connector = Some 0, t_engine_lock = None,
      t_conns = (\<lambda>c. if c = 0
        then \<lparr>c_engine = Some 0, c_connected_for = Some (Some ''sqlite:///app.db'', VBool False)\<rparr>
        else EngineConnector_init),
      t_locks = (\<lambda>c. None), t_n_conns = 1,
      t_engines = [(Some (URL ''sqlite:///app.db''), [(''echo'', VBool False)])],
      t_installed = [0]\<rparr>"

section \<open>Theorems\<close>

subsection \<open>C10: get\_or\_error and first\_or\_error\<close>

lemma or_error_found: "rv \<noteq> VNone \<Longrightarrow> or_error rv error w = (Inr rv, w)"
  by (simp add: or_error_def)

lemma or_error_raise:
  "is_Exception e \<Longrightarrow> or_error VNone (ErrorInstance e) w = (Inl e, w)"
  by (simp add: or_error_def)

lemma or_error_call: "or_error VNone (ErrorCallable f) w = f w"
  by (simp add: or_error_def)

lemma or_error_otherwise:
  "\<not> isinstance_Exception error \<Longrightarrow> or_error VNone error w = call_error error w"
  by (cases error) (simp_all add: or_error_def)

text \<open>
  C10. When the underlying \<open>get\<close> (\<open>first\<close>) returns a value \<open>rv\<close> and leaves the
  world \<open>wa\<close>: a \<open>rv\<close> other than \<open>None\<close> is returned; on \<open>None\<close>, an \<open>error\<close>
  that is an instance of \<open>Exception\<close> is raised, and any other \<open>error\<close> is called
  with no argument and the outcome of that call is the outcome of the method; so what
  a callable returns is returned, not raised.
\<close>

theorem or_error_methods:
  "(query_get q uid w = (Inr rv, wa) \<longrightarrow>
      (rv \<noteq> VNone \<longrightarrow> get_or_error q uid error w = (Inr rv, wa)) \<and>
      (rv = VNone \<longrightarrow>
         (\<forall>e. error = ErrorInstance e \<and> is_Exception e \<longrightarrow>
            get_or_error q uid error w = (Inl e, wa)) \<and>
         (\<not> isinstance_Exception error \<longrightarrow>
            get_or_error q uid error w = call_error error wa) \<and>
         (\<forall>f. error = ErrorCallable f \<longrightarrow>
            get_or_error q uid error w = f wa \<and>
            (\<forall>r wb. f wa = (Inr r, wb) \<longrightarrow>
               get_or_error q uid error w = (Inr r, wb))))) \<and>
   (query_first q w = (Inr rv', wa') \<longrightarrow>
      (rv' \<noteq> VNone \<longrightarrow> first_or_error q error w = (Inr rv', wa')) \<and>
      (rv' = VNone \<longrightarrow>
         (\<forall>e. error = ErrorInstance e \<and> is_Exception e \<longrightarrow>
            first_or_error q error w = (Inl e, wa')) \<and>
         (\<not> isinstance_Exception error \<longrightarrow>
            first_or_error q error w = call_error error wa') \<and>
         (\<forall>f. error = ErrorCallable f \<longrightarrow>
            first_or_error q error w = f wa' \<and>
            (\<forall>r wb. f wa' = (Inr r, wb) \<longrightarrow>
               first_or_error q error w = (Inr r, wb)))))"
  by (simp add: get_or_error_def first_or_error_def or_error_found or_error_raise
      or_error_call or_error_otherwise)

theorem or_error_methods_witness:
  "get_or_error (const_query (VObj 1)) (VInt 7) ErrorOther world0 = (Inr (VObj 1), world0) \<and>
   get_or_error (const_query VNone) (VInt 7) (ErrorInstance (OtherException ''NotFound'')) world0
     = (Inl (OtherException ''NotFound''), world0) \<and>
   get_or_error (const_query VNone) (VInt 7) (ErrorCallable (\<lambda>w. (Inr (VStr ''fallback''), w))) world0
     = (Inr (VStr ''fallback''), world0) \<and>
   get_or_error (const_query VNone) (VInt 7) ErrorOther world0
     = (Inl (TypeError ''object is not callable''), world0) \<and>
   first_or_error (const_query (VObj 1)) ErrorOther world0 = (Inr (VObj 1), world0) \<and>
   first_or_error (const_query VNone) (ErrorInstance (OtherException ''NotFound'')) world0
     = (Inl (OtherException ''NotFound''), world0) \<and>
   first_or_error (const_query VNone) (ErrorCallable (\<lambda>w. (Inr (VStr ''fallback''), w))) world0
     = (Inr (VStr ''fallback''), world0) \<and>
   first_or_error (const_query VNone) ErrorOther world0
     = (Inl (TypeError ''object is not callable''), world0)"
  using
    or_error_methods [of "const_query (VObj 1)" "VInt 7" world0 "VObj 1" world0
      ErrorOther "VObj 1" world0]
    or_error_methods [of "const_query VNone" "VInt 7" world0 VNone world0
      "ErrorInstance (OtherException ''NotFound'')" VNone world0]
    or_error_methods [of "const_query VNone" "VInt 7" world0 VNone world0
      "ErrorCallable (\<lambda>w. (Inr (VStr ''fallback''), w))" VNone world0]
    or_error_methods [of "const_query VNone" "VInt 7" world0 VNone world0
      ErrorOther VNone world0]
  by (simp add: const_query_def)

subsection \<open>C6: to\_dict\<close>




lemma dict_setitem_new: "k \<notin> fst ` set d \<Longrightarrow> dict_setitem d k v = d @ [(k, v)]"
  by (induction d k v rule: dict_setitem.induct) auto







subsection \<open>C3: the inferred table name\<close>

lemma read_tablename_own:
  "cls_tablename (cs cls) = Some v \<Longrightarrow> v \<noteq> VDescriptor \<Longrightarrow>
   read_tablename underscore cs cls = (Inr v, cs)"
  by (simp add: read_tablename_def)

lemma read_tablename_infers:
  assumes "cls_tablename (cs cls) = None"
    and "lookup_tablename cs (cls_mro (cs cls)) = Some VDescriptor"
  shows "read_tablename underscore cs cls =
     (Inr (VStr (underscore (cls_name (cs cls)))),
      cs(cls := (cs cls)\<lparr>cls_tablename := Some (VStr (underscore (cls_name (cs cls))))\<rparr>))"
  using assms by (simp add: read_tablename_def ModelTableNameDescriptor_get_def)

text \<open>
  C3, amended. For a class with no \<open>__tablename__\<close> of its own whose \<open>__mro__\<close>
  reaches the descriptor before any class that has one (a direct subclass of the
  declarative base, say), reading \<open>__tablename__\<close> yields the underscored class name
  and stores it on the class, changing no other class, and a read after that returns
  the same name. A class whose own \<open>__dict__\<close> holds a \<open>__tablename__\<close> keeps
  that value.
\<close>

theorem tablename_inferred:
  "(cls_tablename (cs cls) = None \<and> lookup_tablename cs (cls_mro (cs cls)) = Some VDescriptor \<longrightarrow>
      (\<exists>cs'. read_tablename underscore cs cls = (Inr (VStr (underscore (cls_name (cs cls)))), cs') \<and>
         cls_tablename (cs' cls) = Some (VStr (underscore (cls_name (cs cls)))) \<and>
         (\<forall>c. c \<noteq> cls \<longrightarrow> cs' c = cs c) \<and>
         read_tablename underscore cs' cls = (Inr (VStr (underscore (cls_name (cs cls)))), cs'))) \<and>
   (\<forall>v. cls_tablename (cs cls) = Some v \<and> v \<noteq> VDescriptor \<longrightarrow>
      read_tablename underscore cs cls = (Inr v, cs))"
  by (simp add: read_tablename_infers read_tablename_own)


lemma classes0_simps:
  "classes0 0 = \<lparr>cls_name = ''BaseModel'', cls_tablename = Some VDescriptor, cls_mro = []\<rparr>"
  "classes0 (Suc 0) = \<lparr>cls_name = ''BaseModel'', cls_tablename = None, cls_mro = [0]\<rparr>"
  "classes0 2 = \<lparr>cls_name = ''User'', cls_tablename = None, cls_mro = [1, 0]\<rparr>"
  "classes0 3 = \<lparr>cls_name = ''Admin'', cls_tablename = None, cls_mro = [2, 1, 0]\<rparr>"
  "classes0 4 = \<lparr>cls_name = ''Person'', cls_tablename = Some (VStr ''people''), cls_mro = [1, 0]\<rparr>"
  by (simp_all add: classes0_def)

theorem tablename_inferred_witness:
  "cls_tablename (classes0 2) = None \<and>
   lookup_tablename classes0 (cls_mro (classes0 2)) = Some VDescriptor \<and>
   fst (read_tablename underscore_example classes0 2) = Inr (VStr ''user'') \<and>
   cls_tablename (snd (read_tablename underscore_example classes0 2) 2) = Some (VStr ''user'') \<and>
   fst (read_tablename underscore_example (snd (read_tablename underscore_example classes0 2)) 2)
     = Inr (VStr ''user'') \<and>
   cls_tablename (classes0 4) = Some (VStr ''people'') \<and>
   read_tablename underscore_example classes0 4 = (Inr (VStr ''people''), classes0)"
  using tablename_inferred [of classes0 2 underscore_example]
    tablename_inferred [of classes0 4 underscore_example]
  by (auto simp: classes0_simps underscore_example_def)

text \<open>
  C3 as stated, for every class that defines no \<open>__tablename__\<close>, fails for a
  subclass of a model: once \<open>User\<close> has been read, the name stored on \<open>User\<close> is
  found first along the \<open>__mro__\<close> of \<open>Admin\<close>, and \<open>Admin.__tablename__\<close> is
  \<open>user\<close>, not \<open>admin\<close>.
\<close>

theorem tablename_counterexample:
  "cls_name (classes0 3) = ''Admin'' \<and> underscore_example ''Admin'' = ''admin'' \<and>
   cls_tablename (classes0 3) = None \<and>
   cls_tablename (snd (read_tablename underscore_example classes0 2) 3) = None \<and>
   fst (read_tablename underscore_example (snd (read_tablename underscore_example classes0 2)) 3)
     = Inr (VStr ''user'')"
  by (simp add: read_tablename_def ModelTableNameDescriptor_get_def classes0_simps
      underscore_example_def)

subsection \<open>Shared facts\<close>

lemma log_orm_simps:
  "session_add (log_orm ra rd rc rr) s x = logged (Add s x) ra"
  "session_delete (log_orm ra rd rc rr) s x = logged (Delete s x) rd"
  "session_commit (log_orm ra rd rc rr) s = logged (Commit s) rc"
  "session_rollback (log_orm ra rd rc rr) s = logged (Rollback s) rr"
  "construct (log_orm ra rd rc rr) cls kwargs w =
     (Inr 1, w\<lparr>heap := (heap w)(1 := map_of kwargs), ext := ext w @ [Construct cls kwargs]\<rparr>)"
  "descr_set (log_orm ra rd rc rr) k = None"
  by (simp_all add: log_orm_def)

lemmas example_defs = add_def commit_def rollback_def self_db_def self_db_add_def
  self_db_commit_def self_db_rollback_def self_db_session_delete_def
  ActiveAlchemy_no_uri_def ActiveAlchemy_sqlite_def log_orm_simps logged_def world0_def

lemma self_db_add_session:
  "session db = Some s \<Longrightarrow> heap w self ''db'' = None \<Longrightarrow>
   self_db_add orm db self w = session_add orm s self w"
  by (simp add: self_db_add_def self_db_def add_def)

lemma self_db_commit_session:
  "session db = Some s \<Longrightarrow> heap w self ''db'' = None \<Longrightarrow>
   self_db_commit orm db self w = session_commit orm s w"
  by (simp add: self_db_commit_def self_db_def commit_def)

lemma self_db_rollback_session:
  "session db = Some s \<Longrightarrow> heap w self ''db'' = None \<Longrightarrow>
   self_db_rollback orm db self w = session_rollback orm s w"
  by (simp add: self_db_rollback_def self_db_def rollback_def)

lemma self_db_session_delete_session:
  "session db = Some s \<Longrightarrow> heap w self ''db'' = None \<Longrightarrow>
   self_db_session_delete orm db self w = session_delete orm s self w"
  by (simp add: self_db_session_delete_def self_db_def)

lemma except_Exception_rollback_ok:
  "is_Exception e \<Longrightarrow> self_db_rollback orm db self w = (Inr v, w') \<Longrightarrow>
   except_Exception orm db self e w = (Inl e, w')"
  by (simp add: except_Exception_def)


lemma except_Exception_rollback_session:
  "is_Exception e \<Longrightarrow> session db = Some s \<Longrightarrow> heap w self ''db'' = None \<Longrightarrow>
   session_rollback orm s w = (Inr v, w') \<Longrightarrow>
   except_Exception orm db self e w = (Inl e, w')"
  by (simp add: except_Exception_def self_db_rollback_session)

subsection \<open>C2: save and delete\<close>

text \<open>
  C2, amended. \<open>save\<close> adds the instance and commits, and returns the instance when
  both return. When the add or the commit raises an instance of \<open>Exception\<close>,
  \<open>save\<close> calls \<open>rollback\<close> and, when the rollback returns, raises that same
  exception. The same holds for \<open>delete\<close>, with \<open>session.delete\<close> for the add and
  the value of \<open>commit\<close> as the result. The calls are \<open>self.db.add(self)\<close>,
  \<open>self.db.session.delete(self)\<close>, \<open>self.db.commit()\<close> and
  \<open>self.db.rollback()\<close>; where the \<open>ActiveAlchemy\<close> has a session and the
  instance no attribute \<open>db\<close> of its own, they are that session's \<open>add\<close> and
  \<open>delete\<close> of this instance and its \<open>commit\<close> and \<open>rollback\<close>, and the
  same six statements hold of those.
\<close>

theorem save_delete_discipline:
  "(self_db_add orm db self w = (Inr u, wa) \<and> self_db_commit orm db self wa = (Inr v, wb) \<longrightarrow>
      save orm db self w = (Inr self, wb)) \<and>
   (self_db_add orm db self w = (Inl e, wa) \<and> is_Exception e \<and>
    self_db_rollback orm db self wa = (Inr r, wb) \<longrightarrow>
      save orm db self w = (Inl e, wb)) \<and>
   (self_db_add orm db self w = (Inr u, wa) \<and> self_db_commit orm db self wa = (Inl e, wb) \<and>
    is_Exception e \<and> self_db_rollback orm db self wb = (Inr r, wc) \<longrightarrow>
      save orm db self w = (Inl e, wc)) \<and>
   (self_db_session_delete orm db self w = (Inr u, wa) \<and>
    self_db_commit orm db self wa = (Inr v, wb) \<longrightarrow>
      delete orm db self del hard w = (Inr v, wb)) \<and>
   (self_db_session_delete orm db self w = (Inl e, wa) \<and> is_Exception e \<and>
    self_db_rollback orm db self wa = (Inr r, wb) \<longrightarrow>
      delete orm db self del hard w = (Inl e, wb)) \<and>
   (self_db_session_delete orm db self w = (Inr u, wa) \<and>
    self_db_commit orm db self wa = (Inl e, wb) \<and> is_Exception e \<and>
    self_db_rollback orm db self wb = (Inr r, wc) \<longrightarrow>
      delete orm db self del hard w = (Inl e, wc)) \<and>
   (session db = Some s \<and> heap w self ''db'' = None \<longrightarrow>
      self_db_add orm db self w = session_add orm s self w \<and>
      self_db_session_delete orm db self w = session_delete orm s self w \<and>
      self_db_commit orm db self w = session_commit orm s w \<and>
      self_db_rollback orm db self w = session_rollback orm s w) \<and>
   (session db = Some s \<and> heap w self ''db'' = None \<and>
    session_add orm s self w = (Inr u, wa) \<and> heap wa self ''db'' = None \<and>
    session_commit orm s wa = (Inr v, wb) \<longrightarrow>
      save orm db self w = (Inr self, wb)) \<and>
   (session db = Some s \<and> heap w self ''db'' = None \<and>
    session_add orm s self w = (Inl e, wa) \<and> is_Exception e \<and> heap wa self ''db'' = None \<and>
    session_rollback orm s wa = (Inr r, wb) \<longrightarrow>
      save orm db self w = (Inl e, wb)) \<and>
   (session db = Some s \<and> heap w self ''db'' = None \<and>
    session_add orm s self w = (Inr u, wa) \<and> heap wa self ''db'' = None \<and>
    session_commit orm s wa = (Inl e, wb) \<and> is_Exception e \<and> heap wb self ''db'' = None \<and>
    session_rollback orm s wb = (Inr r, wc) \<longrightarrow>
      save orm db self w = (Inl e, wc)) \<and>
   (session db = Some s \<and> heap w self ''db'' = None \<and>
    session_delete orm s self w = (Inr u, wa) \<and> heap wa self ''db'' = None \<and>
    session_commit orm s wa = (Inr v, wb) \<longrightarrow>
      delete orm db self del hard w = (Inr v, wb)) \<and>
   (session db = Some s \<and> heap w self ''db'' = None \<and>
    session_delete orm s self w = (Inl e, wa) \<and> is_Exception e \<and> heap wa self ''db'' = None \<and>
    session_rollback orm s wa = (Inr r, wb) \<longrightarrow>
      delete orm db self del hard w = (Inl e, wb)) \<and>
   (session db = Some s \<and> heap w self ''db'' = None \<and>
    session_delete orm s self w = (Inr u, wa) \<and> heap wa self ''db'' = None \<and>
    session_commit orm s wa = (Inl e, wb) \<and> is_Exception e \<and> heap wb self ''db'' = None \<and>
    session_rollback orm s wb = (Inr r, wc) \<longrightarrow>
      delete orm db self del hard w = (Inl e, wc))"
proof -
  have general:
    "(self_db_add orm db self w = (Inr u, wa) \<and> self_db_commit orm db self wa = (Inr v, wb) \<longrightarrow>
        save orm db self w = (Inr self, wb)) \<and>
     (self_db_add orm db self w = (Inl e, wa) \<and> is_Exception e \<and>
      self_db_rollback orm db self wa = (Inr r, wb) \<longrightarrow>
        save orm db self w = (Inl e, wb)) \<and>
     (self_db_add orm db self w = (Inr u, wa) \<and> self_db_commit orm db self wa = (Inl e, wb) \<and>
      is_Exception e \<and> self_db_rollback orm db self wb = (Inr r, wc) \<longrightarrow>
        save orm db self w = (Inl e, wc)) \<and>
     (self_db_session_delete orm db self w = (Inr u, wa) \<and>
      self_db_commit orm db self wa = (Inr v, wb) \<longrightarrow>
        delete orm db self del hard w = (Inr v, wb)) \<and>
     (self_db_session_delete orm db self w = (Inl e, wa) \<and> is_Exception e \<and>
      self_db_rollback orm db self wa = (Inr r, wb) \<longrightarrow>
        delete orm db self del hard w = (Inl e, wb)) \<and>
     (self_db_session_delete orm db self w = (Inr u, wa) \<and>
      self_db_commit orm db self wa = (Inl e, wb) \<and> is_Exception e \<and>
      self_db_rollback orm db self wb = (Inr r, wc) \<longrightarrow>
        delete orm db self del hard w = (Inl e, wc))"
    by (simp add: save_def delete_def except_Exception_rollback_ok)
  have link:
    "session db = Some s \<and> heap w self ''db'' = None \<longrightarrow>
      self_db_add orm db self w = session_add orm s self w \<and>
      self_db_session_delete orm db self w = session_delete orm s self w \<and>
      self_db_commit orm db self w = session_commit orm s w \<and>
      self_db_rollback orm db self w = session_rollback orm s w"
    by (simp add: self_db_add_session self_db_commit_session self_db_rollback_session
        self_db_session_delete_session)
  have pinned:
    "(session db = Some s \<and> heap w self ''db'' = None \<and>
      session_add orm s self w = (Inr u, wa) \<and> heap wa self ''db'' = None \<and>
      session_commit orm s wa = (Inr v, wb) \<longrightarrow>
        save orm db self w = (Inr self, wb)) \<and>
     (session db = Some s \<and> heap w self ''db'' = None \<and>
      session_add orm s self w = (Inl e, wa) \<and> is_Exception e \<and> heap wa self ''db'' = None \<and>
      session_rollback orm s wa = (Inr r, wb) \<longrightarrow>
        save orm db self w = (Inl e, wb)) \<and>
     (session db = Some s \<and> heap w self ''db'' = None \<and>
      session_add orm s self w = (Inr u, wa) \<and> heap wa self ''db'' = None \<and>
      session_commit orm s wa = (Inl e, wb) \<and> is_Exception e \<and> heap wb self ''db'' = None \<and>
      session_rollback orm s wb = (Inr r, wc) \<longrightarrow>
        save orm db self w = (Inl e, wc)) \<and>
     (session db = Some s \<and> heap w self ''db'' = None \<and>
      session_delete orm s self w = (Inr u, wa) \<and> heap wa self ''db'' = None \<and>
      session_commit orm s wa = (Inr v, wb) \<longrightarrow>
        delete orm db self del hard w = (Inr v, wb)) \<and>
     (session db = Some s \<and> heap w self ''db'' = None \<and>
      session_delete orm s self w = (Inl e, wa) \<and> is_Exception e \<and> heap wa self ''db'' = None \<and>
      session_rollback orm s wa = (Inr r, wb) \<longrightarrow>
        delete orm db self del hard w = (Inl e, wb)) \<and>
     (session db = Some s \<and> heap w self ''db'' = None \<and>
      session_delete orm s self w = (Inr u, wa) \<and> heap wa self ''db'' = None \<and>
      session_commit orm s wa = (Inl e, wb) \<and> is_Exception e \<and> heap wb self ''db'' = None \<and>
      session_rollback orm s wb = (Inr r, wc) \<longrightarrow>
        delete orm db self del hard w = (Inl e, wc))"
    by (simp add: save_def delete_def except_Exception_rollback_session self_db_add_session
        self_db_commit_session self_db_session_delete_session)
  from general link pinned show ?thesis by blast
qed

theorem save_delete_discipline_witness:
  "save (log_orm (Inr VNone) (Inr VNone) (Inr VNone) (Inr VNone)) ActiveAlchemy_sqlite 1 world0
     = (Inr 1, world0\<lparr>ext := [Add 3 1, Commit 3]\<rparr>) \<and>
   save (log_orm (Inl (OtherException ''InvalidRequestError'')) (Inr VNone) (Inr VNone) (Inr VNone))
       ActiveAlchemy_sqlite 1 world0
     = (Inl (OtherException ''InvalidRequestError''), world0\<lparr>ext := [Add 3 1, Rollback 3]\<rparr>) \<and>
   save (log_orm (Inr VNone) (Inr VNone) (Inl (OtherException ''IntegrityError'')) (Inr VNone))
       ActiveAlchemy_sqlite 1 world0
     = (Inl (OtherException ''IntegrityError''),
        world0\<lparr>ext := [Add 3 1, Commit 3, Rollback 3]\<rparr>) \<and>
   delete (log_orm (Inr VNone) (Inr VNone) (Inr VNone) (Inr VNone)) ActiveAlchemy_sqlite 1
       (VBool True) (VBool False) world0
     = (Inr VNone, world0\<lparr>ext := [Delete 3 1, Commit 3]\<rparr>) \<and>
   delete (log_orm (Inr VNone) (Inl (OtherException ''InvalidRequestError'')) (Inr VNone) (Inr VNone))
       ActiveAlchemy_sqlite 1 (VBool True) (VBool False) world0
     = (Inl (OtherException ''InvalidRequestError''),
        world0\<lparr>ext := [Delete 3 1, Rollback 3]\<rparr>) \<and>
   delete (log_orm (Inr VNone) (Inr VNone) (Inl (OtherException ''IntegrityError'')) (Inr VNone))
       ActiveAlchemy_sqlite 1 (VBool True) (VBool False) world0
     = (Inl (OtherException ''IntegrityError''),
        world0\<lparr>ext := [Delete 3 1, Commit 3, Rollback 3]\<rparr>)"
proof -
  let ?ok = "Inr VNone :: py_exn + pyval"
  have s: "session ActiveAlchemy_sqlite = Some 3" and h: "heap world0 1 ''db'' = None"
    by (simp_all add: ActiveAlchemy_sqlite_def world0_def)
  have h': "heap (world0\<lparr>ext := l\<rparr>) 1 ''db'' = None" for l
    by (simp add: world0_def)
  note t = save_delete_discipline [where db = ActiveAlchemy_sqlite and self = 1 and w = world0
      and s = 3 and del = "VBool True" and hard = "VBool False"]
  have 1: "save (log_orm ?ok ?ok ?ok ?ok) ActiveAlchemy_sqlite 1 world0
     = (Inr 1, world0\<lparr>ext := [Add 3 1, Commit 3]\<rparr>)"
    using t [where orm = "log_orm ?ok ?ok ?ok ?ok" and u = VNone and v = VNone
        and wa = "world0\<lparr>ext := [Add 3 1]\<rparr>" and wb = "world0\<lparr>ext := [Add 3 1, Commit 3]\<rparr>"] s h h'
    by (simp add: log_orm_simps logged_def world0_def)
  have 2: "save (log_orm (Inl (OtherException ''InvalidRequestError'')) ?ok ?ok ?ok)
       ActiveAlchemy_sqlite 1 world0
     = (Inl (OtherException ''InvalidRequestError''), world0\<lparr>ext := [Add 3 1, Rollback 3]\<rparr>)"
    using t [where orm = "log_orm (Inl (OtherException ''InvalidRequestError'')) ?ok ?ok ?ok"
        and e = "OtherException ''InvalidRequestError''" and r = VNone
        and wa = "world0\<lparr>ext := [Add 3 1]\<rparr>" and wb = "world0\<lparr>ext := [Add 3 1, Rollback 3]\<rparr>"] s h h'
    by (simp add: log_orm_simps logged_def world0_def)
  have 3: "save (log_orm ?ok ?ok (Inl (OtherException ''IntegrityError'')) ?ok)
       ActiveAlchemy_sqlite 1 world0
     = (Inl (OtherException ''IntegrityError''),
        world0\<lparr>ext := [Add 3 1, Commit 3, Rollback 3]\<rparr>)"
    using t [where orm = "log_orm ?ok ?ok (Inl (OtherException ''IntegrityError'')) ?ok"
        and u = VNone and e = "OtherException ''IntegrityError''" and r = VNone
        and wa = "world0\<lparr>ext := [Add 3 1]\<rparr>" and wb = "world0\<lparr>ext := [Add 3 1, Commit 3]\<rparr>"
        and wc = "world0\<lparr>ext := [Add 3 1, Commit 3, Rollback 3]\<rparr>"] s h h'
    by (simp add: log_orm_simps logged_def world0_def)
  have 4: "delete (log_orm ?ok ?ok ?ok ?ok) ActiveAlchemy_sqlite 1 (VBool True) (VBool False) world0
     = (Inr VNone, world0\<lparr>ext := [Delete 3 1, Commit 3]\<rparr>)"
    using t [where orm = "log_orm ?ok ?ok ?ok ?ok" and u = VNone and v = VNone
        and wa = "world0\<lparr>ext := [Delete 3 1]\<rparr>" and wb = "world0\<lparr>ext := [Delete 3 1, Commit 3]\<rparr>"] s h h'
    by (simp add: log_orm_simps logged_def world0_def)
  have 5: "delete (log_orm ?ok (Inl (OtherException ''InvalidRequestError'')) ?ok ?ok)
       ActiveAlchemy_sqlite 1 (VBool True) (VBool False) world0
     = (Inl (OtherException ''InvalidRequestError''), world0\<lparr>ext := [Delete 3 1, Rollback 3]\<rparr>)"
    using t [where orm = "log_orm ?ok (Inl (OtherException ''InvalidRequestError'')) ?ok ?ok"
        and e = "OtherException ''InvalidRequestError''" and r = VNone
        and wa = "world0\<lparr>ext := [Delete 3 1]\<rparr>" and wb = "world0\<lparr>ext := [Delete 3 1, Rollback 3]\<rparr>"] s h h'
    by (simp add: log_orm_simps logged_def world0_def)
  have 6: "delete (log_orm ?ok ?ok (Inl (OtherException ''IntegrityError'')) ?ok)
       ActiveAlchemy_sqlite 1 (VBool True) (VBool False) world0
     = (Inl (OtherException ''IntegrityError''),
        world0\<lparr>ext := [Delete 3 1, Commit 3, Rollback 3]\<rparr>)"
    using t [where orm = "log_orm ?ok ?ok (Inl (OtherException ''IntegrityError'')) ?ok"
        and u = VNone and e = "OtherException ''IntegrityError''" and r = VNone
        and wa = "world0\<lparr>ext := [Delete 3 1]\<rparr>" and wb = "world0\<lparr>ext := [Delete 3 1, Commit 3]\<rparr>"
        and wc = "world0\<lparr>ext := [Delete 3 1, Commit 3, Rollback 3]\<rparr>"] s h h'
    by (simp add: log_orm_simps logged_def world0_def)
  from 1 2 3 4 5 6 show ?thesis by simp
qed

text \<open>
  C2 as stated fails in two ways. On an \<open>ActiveAlchemy\<close> made without a uri the
  session is \<open>None\<close>: the add raises an \<open>AttributeError\<close>, the handler's
  \<open>rollback\<close> raises another one, and that second exception is what \<open>save\<close> and
  \<open>delete\<close> raise. And an exception outside \<open>Exception\<close> raised by \<open>commit\<close>
  passes through with no rollback: the session has seen the add and the commit only.
\<close>

theorem save_reraise_counterexample:
  "self_db_add (log_orm (Inr VNone) (Inr VNone) (Inr VNone) (Inr VNone)) ActiveAlchemy_no_uri 1 world0
     = (Inl (AttributeError ''add''), world0) \<and>
   save (log_orm (Inr VNone) (Inr VNone) (Inr VNone) (Inr VNone)) ActiveAlchemy_no_uri 1 world0
     = (Inl (AttributeError ''rollback''), world0) \<and>
   delete (log_orm (Inr VNone) (Inr VNone) (Inr VNone) (Inr VNone)) ActiveAlchemy_no_uri 1
       (VBool True) (VBool False) world0
     = (Inl (AttributeError ''rollback''), world0) \<and>
   fst (session_commit (log_orm (Inr VNone) (Inr VNone) (Inl (NonException ''KeyboardInterrupt'')) (Inr VNone))
       3 (world0\<lparr>ext := [Add 3 1]\<rparr>))
     = Inl (NonException ''KeyboardInterrupt'') \<and>
   save (log_orm (Inr VNone) (Inr VNone) (Inl (NonException ''KeyboardInterrupt'')) (Inr VNone))
       ActiveAlchemy_sqlite 1 world0
     = (Inl (NonException ''KeyboardInterrupt''), world0\<lparr>ext := [Add 3 1, Commit 3]\<rparr>)"
  by (simp add: save_def delete_def except_Exception_def example_defs)

subsection \<open>C9: delete ignores its parameters\<close>

lemma keeps_heapD: "keeps_heap f \<Longrightarrow> f w = (r, w') \<Longrightarrow> heap w' = heap w"
  unfolding keeps_heap_def by (metis snd_conv)

lemma self_db_session_delete_heap:
  "\<forall>s x. keeps_heap (session_delete orm s x) \<Longrightarrow>
   self_db_session_delete orm db self w = (r, w') \<Longrightarrow> heap w' = heap w"
  by (auto simp: self_db_session_delete_def split: option.splits dest: keeps_heapD)

lemma self_db_commit_heap:
  "\<forall>s. keeps_heap (session_commit orm s) \<Longrightarrow>
   self_db_commit orm db self w = (r, w') \<Longrightarrow> heap w' = heap w"
  by (auto simp: self_db_commit_def commit_def split: option.splits dest: keeps_heapD)

lemma self_db_rollback_heap:
  "\<forall>s. keeps_heap (session_rollback orm s) \<Longrightarrow>
   self_db_rollback orm db self w = (r, w') \<Longrightarrow> heap w' = heap w"
  by (auto simp: self_db_rollback_def rollback_def split: option.splits dest: keeps_heapD)

lemma except_Exception_heap:
  assumes "\<forall>s. keeps_heap (session_rollback orm s)"
  shows "heap (snd (except_Exception orm db self e w)) = heap w"
proof (cases "is_Exception e")
  case False
  then show ?thesis by (simp add: except_Exception_def)
next
  case True
  obtain r w' where rb: "self_db_rollback orm db self w = (r, w')"
    by (cases "self_db_rollback orm db self w")
  from self_db_rollback_heap [OF assms rb] have "heap w' = heap w" .
  with True rb show ?thesis
    by (cases r) (simp_all add: except_Exception_def)
qed

lemma delete_heap:
  assumes d: "\<forall>s x. keeps_heap (session_delete orm s x)"
    and c: "\<forall>s. keeps_heap (session_commit orm s)"
    and r: "\<forall>s. keeps_heap (session_rollback orm s)"
  shows "heap (snd (delete orm db self del hard w)) = heap w"
proof -
  obtain r1 w1 where s1: "self_db_session_delete orm db self w = (r1, w1)"
    by (cases "self_db_session_delete orm db self w")
  have h1: "heap w1 = heap w" by (rule self_db_session_delete_heap [OF d s1])
  show ?thesis
  proof (cases r1)
    case (Inl e)
    with s1 h1 show ?thesis by (simp add: delete_def except_Exception_heap [OF r])
  next
    case (Inr u)
    obtain r2 w2 where s2: "self_db_commit orm db self w1 = (r2, w2)"
      by (cases "self_db_commit orm db self w1")
    have h2: "heap w2 = heap w1" by (rule self_db_commit_heap [OF c s2])
    from Inr s1 s2 h1 h2 show ?thesis
      by (cases r2) (simp_all add: delete_def except_Exception_heap [OF r])
  qed
qed

lemma delete_first_call:
  "session db = Some s \<Longrightarrow> heap w self ''db'' = None \<Longrightarrow>
   delete orm db self del hard w =
     (case session_delete orm s self w of
        (Inl e, wa) \<Rightarrow> except_Exception orm db self e wa
      | (Inr u, wa) \<Rightarrow>
          (case self_db_commit orm db self wa of
             (Inl e, wb) \<Rightarrow> except_Exception orm db self e wb
           | (Inr v, wb) \<Rightarrow> (Inr v, wb)))"
  by (simp add: delete_def self_db_session_delete_session)

text \<open>
  C9, amended. \<open>delete\<close> does the same for every value of its two parameters, and
  it sets no attribute of the instance: with a session that leaves the instances'
  attributes alone, they are after \<open>delete\<close> what they were before. Where the
  \<open>ActiveAlchemy\<close> has a session and the instance no attribute \<open>db\<close> of its own,
  \<open>delete\<close> first calls that session's \<open>delete\<close> on the instance; when that
  returns it commits on that session and returns what \<open>commit\<close> returns, and when
  it raises the handler takes the exception and nothing is committed.
\<close>

theorem delete_ignores_flags:
  "delete orm db self del hard w = delete orm db self del' hard' w \<and>
   (session db = Some s \<and> heap w self ''db'' = None \<and>
    session_delete orm s self w = (Inr u, wa) \<and> heap wa self ''db'' = None \<and>
    session_commit orm s wa = (Inr v, wb) \<longrightarrow>
      delete orm db self del hard w = (Inr v, wb)) \<and>
   (session db = Some s \<and> heap w self ''db'' = None \<and>
    session_delete orm s self w = (Inl e, wa) \<longrightarrow>
      delete orm db self del hard w = except_Exception orm db self e wa) \<and>
   ((\<forall>s x. keeps_heap (session_delete orm s x)) \<and> (\<forall>s. keeps_heap (session_commit orm s)) \<and>
    (\<forall>s. keeps_heap (session_rollback orm s)) \<longrightarrow>
      heap (snd (delete orm db self del hard w)) = heap w)"
proof (intro conjI impI)
  show "delete orm db self del hard w = delete orm db self del' hard' w"
    by (simp add: delete_def)
next
  assume "session db = Some s \<and> heap w self ''db'' = None \<and>
    session_delete orm s self w = (Inr u, wa) \<and> heap wa self ''db'' = None \<and>
    session_commit orm s wa = (Inr v, wb)"
  then show "delete orm db self del hard w = (Inr v, wb)"
    by (simp add: delete_first_call self_db_commit_session)
next
  assume "session db = Some s \<and> heap w self ''db'' = None \<and>
    session_delete orm s self w = (Inl e, wa)"
  then show "delete orm db self del hard w = except_Exception orm db self e wa"
    by (simp add: delete_first_call)
next
  assume "(\<forall>s x. keeps_heap (session_delete orm s x)) \<and> (\<forall>s. keeps_heap (session_commit orm s)) \<and>
    (\<forall>s. keeps_heap (session_rollback orm s))"
  then show "heap (snd (delete orm db self del hard w)) = heap w"
    by (simp add: delete_heap)
qed

lemma logged_keeps_heap: "keeps_heap (logged c r)"
  by (simp add: keeps_heap_def logged_def)

theorem delete_ignores_flags_witness:
  "delete (log_orm (Inr VNone) (Inr VNone) (Inr VNone) (Inr VNone)) ActiveAlchemy_sqlite 1
       (VBool False) (VBool True) world1
     = delete (log_orm (Inr VNone) (Inr VNone) (Inr VNone) (Inr VNone)) ActiveAlchemy_sqlite 1
       (VBool True) (VBool False) world1 \<and>
   delete (log_orm (Inr VNone) (Inr VNone) (Inr VNone) (Inr VNone)) ActiveAlchemy_sqlite 1
       (VBool False) (VBool True) world1
     = (Inr VNone, world1\<lparr>ext := [Delete 3 1, Commit 3]\<rparr>) \<and>
   delete (log_orm (Inr VNone) (Inl (OtherException ''InvalidRequestError'')) (Inr VNone) (Inr VNone))
       ActiveAlchemy_sqlite 1 (VBool False) (VBool True) world1
     = except_Exception (log_orm (Inr VNone) (Inl (OtherException ''InvalidRequestError'')) (Inr VNone) (Inr VNone))
         ActiveAlchemy_sqlite 1 (OtherException ''InvalidRequestError'')
         (world1\<lparr>ext := [Delete 3 1]\<rparr>) \<and>
   heap (snd (delete (log_orm (Inr VNone) (Inr VNone) (Inr VNone) (Inr VNone)) ActiveAlchemy_sqlite 1
       (VBool False) (VBool True) world1)) = heap world1"
proof -
  let ?ok = "Inr VNone :: py_exn + pyval"
  have s: "session ActiveAlchemy_sqlite = Some 3" and h: "heap world1 1 ''db'' = None"
    by (simp_all add: ActiveAlchemy_sqlite_def world1_def)
  have h': "heap (world1\<lparr>ext := l\<rparr>) 1 ''db'' = None" for l
    by (simp add: world1_def)
  note t = delete_ignores_flags [where db = ActiveAlchemy_sqlite and self = 1 and w = world1
      and s = 3 and del = "VBool False" and hard = "VBool True" and del' = "VBool True"
      and hard' = "VBool False"]
  have k: "(\<forall>s x. keeps_heap (session_delete (log_orm ?ok ?ok ?ok ?ok) s x)) \<and>
      (\<forall>s. keeps_heap (session_commit (log_orm ?ok ?ok ?ok ?ok) s)) \<and>
      (\<forall>s. keeps_heap (session_rollback (log_orm ?ok ?ok ?ok ?ok) s))"
    by (simp add: log_orm_simps logged_keeps_heap)
  have 1: "delete (log_orm ?ok ?ok ?ok ?ok) ActiveAlchemy_sqlite 1 (VBool False) (VBool True) world1
     = delete (log_orm ?ok ?ok ?ok ?ok) ActiveAlchemy_sqlite 1 (VBool True) (VBool False) world1"
    using t [where orm = "log_orm ?ok ?ok ?ok ?ok"] by blast
  have a: "session_delete (log_orm ra rd rc rr) 3 1 world1 = (rd, world1\<lparr>ext := [Delete 3 1]\<rparr>)"
    for ra rd rc rr
    by (simp add: log_orm_simps logged_def world1_def)
  have b: "session_commit (log_orm ra rd rc rr) 3 (world1\<lparr>ext := [Delete 3 1]\<rparr>)
      = (rc, world1\<lparr>ext := [Delete 3 1, Commit 3]\<rparr>)" for ra rd rc rr
    by (simp add: log_orm_simps logged_def world1_def)
  have 2: "delete (log_orm ?ok ?ok ?ok ?ok) ActiveAlchemy_sqlite 1 (VBool False) (VBool True) world1
     = (Inr VNone, world1\<lparr>ext := [Delete 3 1, Commit 3]\<rparr>)"
    using t [where orm = "log_orm ?ok ?ok ?ok ?ok" and u = VNone and v = VNone
        and wa = "world1\<lparr>ext := [Delete 3 1]\<rparr>" and wb = "world1\<lparr>ext := [Delete 3 1, Commit 3]\<rparr>"]
      s h h' a b
    by blast
  have 3: "delete (log_orm ?ok (Inl (OtherException ''InvalidRequestError'')) ?ok ?ok)
       ActiveAlchemy_sqlite 1 (VBool False) (VBool True) world1
     = except_Exception (log_orm ?ok (Inl (OtherException ''InvalidRequestError'')) ?ok ?ok)
         ActiveAlchemy_sqlite 1 (OtherException ''InvalidRequestError'')
         (world1\<lparr>ext := [Delete 3 1]\<rparr>)"
    using t [where orm = "log_orm ?ok (Inl (OtherException ''InvalidRequestError'')) ?ok ?ok"
        and e = "OtherException ''InvalidRequestError''"
        and wa = "world1\<lparr>ext := [Delete 3 1]\<rparr>"] s h a
    by blast
  have 4: "heap (snd (delete (log_orm ?ok ?ok ?ok ?ok) ActiveAlchemy_sqlite 1
       (VBool False) (VBool True) world1)) = heap world1"
    using t [where orm = "log_orm ?ok ?ok ?ok ?ok"] k by blast
  from 1 2 3 4 show ?thesis by simp
qed

text \<open>
  C9 as stated, unconditionally and for every instance, fails: without a session
  nothing is removed and nothing committed, whatever the parameters; when
  \<open>session.delete\<close> raises, the session is rolled back and not committed; and an
  instance with an attribute \<open>db\<close> of its own never reaches the session.
\<close>

theorem delete_counterexample:
  "delete (log_orm (Inr VNone) (Inr VNone) (Inr VNone) (Inr VNone)) ActiveAlchemy_no_uri 1
       (VBool True) (VBool True) world1
     = (Inl (AttributeError ''rollback''), world1) \<and>
   delete (log_orm (Inr VNone) (Inl (OtherException ''InvalidRequestError'')) (Inr VNone) (Inr VNone))
       ActiveAlchemy_sqlite 1 (VBool True) (VBool True) world1
     = (Inl (OtherException ''InvalidRequestError''), world1\<lparr>ext := [Delete 3 1, Rollback 3]\<rparr>) \<and>
   delete (log_orm (Inr VNone) (Inr VNone) (Inr VNone) (Inr VNone)) ActiveAlchemy_sqlite 1
       (VBool True) (VBool True) (store 1 ''db'' VNone world1)
     = (Inl (AttributeError ''rollback''), store 1 ''db'' VNone world1)"
  by (simp add: delete_def except_Exception_def example_defs world1_def store_def)


subsection \<open>C4: update\<close>













subsection \<open>C5: create\<close>




subsection \<open>C1: get\_engine\<close>



lemma not_connected_init: "\<not> is_connected_for sa_obj EngineConnector_init"
  by (simp add: is_connected_for_def EngineConnector_init_def)



lemma get_engine_raises:
  "\<not> is_connected_for sa_obj self \<Longrightarrow> create_engine (info sa_obj) (options sa_obj) = Some x \<Longrightarrow>
   get_engine create_engine sa_obj self es = (Inl x, self, es)"
  by (simp add: get_engine_def)










text \<open>
  The property \<open>engine\<close> goes through \<open>get_engine\<close>: on a new connector when the
  object has none, on its connector otherwise; the connector is then the object's.
\<close>

lemma connected_key_connector_field:
  "connected_key (sa_obj\<lparr>connector := x\<rparr>) = connected_key sa_obj"
  by (simp add: connected_key_def)

lemma is_connected_for_connector_field:
  "is_connected_for (sa_obj\<lparr>connector := x\<rparr>) self = is_connected_for sa_obj self"
  by (simp add: is_connected_for_def connected_key_connector_field split: option.splits)

lemma get_engine_connector_field:
  "get_engine create_engine (sa_obj\<lparr>connector := x\<rparr>) self es
     = get_engine create_engine sa_obj self es"
  by (simp add: get_engine_def is_connected_for_connector_field connected_key_connector_field
      split: option.splits)

lemma engine_installs:
  "connector db = None \<Longrightarrow>
   engine create_engine db es =
     (case get_engine create_engine db EngineConnector_init es of
        (r, c', es') \<Rightarrow> (r, db\<lparr>connector := Some c'\<rparr>, es'))"
  by (simp add: engine_def get_engine_connector_field)

lemma engine_reuses:
  "connector db = Some c \<Longrightarrow>
   engine create_engine db es =
     (case get_engine create_engine db c es of
        (r, c', es') \<Rightarrow> (r, db\<lparr>connector := Some c'\<rparr>, es'))"
  by (simp add: engine_def get_engine_connector_field)

subsection \<open>C8: engine access by concurrent threads\<close>

lemma inv_init: "inv sa_obj threads_init"
  by (simp add: inv_def global_ok_def n_ok_def cache_ok_def threads_init_def
      EngineConnector_init_def)

lemma inv_bounds: "inv sa_obj s \<Longrightarrow> length (t_installed s) \<le> 1 \<and> length (t_engines s) \<le> 1"
  by (auto simp: inv_def global_ok_def split: option.splits)

lemma inv_local: "inv sa_obj s \<Longrightarrow> local_ok sa_obj s t (t_pc s t)"
  by (simp add: inv_def)

lemma inv_global: "inv sa_obj s \<Longrightarrow> global_ok sa_obj s"
  by (simp add: inv_def)

lemmas ok_defs = n_ok_def cache_ok_def in_property_def global_ok_def


lemma connected_after_set_key:
  "is_connected_for sa_obj (k\<lparr>c_connected_for := Some (connected_key sa_obj)\<rparr>)"
  by (simp add: is_connected_for_def key_eq_def py_eq_def)

lemmas step_simps = goto_def ok_defs EngineConnector_init_def connected_after_set_key

lemma inv_Idle_property:
  assumes i: "inv sa_obj s" and p: "t_pc s t = Idle"
  shows "inv sa_obj (goto t E_acquire s)"
proof -
  let ?s' = "goto t E_acquire s"
  from inv_local [OF i, of t] p have lt: "local_ok sa_obj s t (Idle)" by simp
  note g = inv_global [OF i]
  have "local_ok sa_obj ?s' t' (t_pc ?s' t')" for t'
  proof (cases "t' = t")
    case True
    with lt g show ?thesis by (auto simp: step_simps split: if_splits)
  next
    case False
    from inv_local [OF i, of t'] have "local_ok sa_obj s t' (t_pc s t')" .
    with False lt g show ?thesis
      by (cases "t_pc s t'") (auto simp: step_simps split: if_splits)
  qed
  moreover from g lt have "global_ok sa_obj ?s'"
    by (auto simp: step_simps split: if_splits)
  ultimately show ?thesis by (simp add: inv_def)
qed

lemma inv_Idle_no_connector:
  assumes i: "inv sa_obj s" and p: "t_pc s t = Idle" and x: "t_connector s = None"
  shows "inv sa_obj (goto t (Done (Inl (AttributeError ''get_engine''))) s)"
proof -
  let ?s' = "goto t (Done (Inl (AttributeError ''get_engine''))) s"
  from inv_local [OF i, of t] p have lt: "local_ok sa_obj s t (Idle)" by simp
  note g = inv_global [OF i]
  have "local_ok sa_obj ?s' t' (t_pc ?s' t')" for t'
  proof (cases "t' = t")
    case True
    with lt g x show ?thesis by (auto simp: step_simps split: if_splits)
  next
    case False
    from inv_local [OF i, of t'] have "local_ok sa_obj s t' (t_pc s t')" .
    with False lt g x show ?thesis
      by (cases "t_pc s t'") (auto simp: step_simps split: if_splits)
  qed
  moreover from g lt x have "global_ok sa_obj ?s'"
    by (auto simp: step_simps split: if_splits)
  ultimately show ?thesis by (simp add: inv_def)
qed

lemma inv_Idle_get_engine:
  assumes i: "inv sa_obj s" and p: "t_pc s t = Idle" and x: "t_connector s = Some c"
  shows "inv sa_obj (goto t (G_acquire False c) s)"
proof -
  let ?s' = "goto t (G_acquire False c) s"
  from inv_local [OF i, of t] p have lt: "local_ok sa_obj s t (Idle)" by simp
  note g = inv_global [OF i]
  have "local_ok sa_obj ?s' t' (t_pc ?s' t')" for t'
  proof (cases "t' = t")
    case True
    with lt g x show ?thesis by (auto simp: step_simps split: if_splits)
  next
    case False
    from inv_local [OF i, of t'] have "local_ok sa_obj s t' (t_pc s t')" .
    with False lt g x show ?thesis
      by (cases "t_pc s t'") (auto simp: step_simps split: if_splits)
  qed
  moreover from g lt x have "global_ok sa_obj ?s'"
    by (auto simp: step_simps split: if_splits)
  ultimately show ?thesis by (simp add: inv_def)
qed

lemma inv_E_acquire:
  assumes i: "inv sa_obj s" and p: "t_pc s t = E_acquire" and x: "t_engine_lock s = None"
  shows "inv sa_obj (goto t E_read (s\<lparr>t_engine_lock := Some t\<rparr>))"
proof -
  let ?s' = "goto t E_read (s\<lparr>t_engine_lock := Some t\<rparr>)"
  from inv_local [OF i, of t] p have lt: "local_ok sa_obj s t (E_acquire)" by simp
  note g = inv_global [OF i]
  have "local_ok sa_obj ?s' t' (t_pc ?s' t')" for t'
  proof (cases "t' = t")
    case True
    with lt g x show ?thesis by (auto simp: step_simps split: if_splits)
  next
    case False
    from inv_local [OF i, of t'] have "local_ok sa_obj s t' (t_pc s t')" .
    with False lt g x show ?thesis
      by (cases "t_pc s t'") (auto simp: step_simps split: if_splits)
  qed
  moreover from g lt x have "global_ok sa_obj ?s'"
    by (auto simp: step_simps split: if_splits)
  ultimately show ?thesis by (simp add: inv_def)
qed

lemma inv_E_read:
  assumes i: "inv sa_obj s" and p: "t_pc s t = E_read"
  shows "inv sa_obj (goto t (E_test (t_connector s)) s)"
proof -
  let ?s' = "goto t (E_test (t_connector s)) s"
  from inv_local [OF i, of t] p have lt: "local_ok sa_obj s t (E_read)" by simp
  note g = inv_global [OF i]
  have "local_ok sa_obj ?s' t' (t_pc ?s' t')" for t'
  proof (cases "t' = t")
    case True
    with lt g show ?thesis by (auto simp: step_simps split: if_splits)
  next
    case False
    from inv_local [OF i, of t'] have "local_ok sa_obj s t' (t_pc s t')" .
    with False lt g show ?thesis
      by (cases "t_pc s t'") (auto simp: step_simps split: if_splits)
  qed
  moreover from g lt have "global_ok sa_obj ?s'"
    by (auto simp: step_simps split: if_splits)
  ultimately show ?thesis by (simp add: inv_def)
qed

lemma inv_E_test_None:
  assumes i: "inv sa_obj s" and p: "t_pc s t = E_test None"
  shows "inv sa_obj (goto t E_new s)"
proof -
  let ?s' = "goto t E_new s"
  from inv_local [OF i, of t] p have lt: "local_ok sa_obj s t (E_test None)" by simp
  note g = inv_global [OF i]
  have "local_ok sa_obj ?s' t' (t_pc ?s' t')" for t'
  proof (cases "t' = t")
    case True
    with lt g show ?thesis by (auto simp: step_simps split: if_splits)
  next
    case False
    from inv_local [OF i, of t'] have "local_ok sa_obj s t' (t_pc s t')" .
    with False lt g show ?thesis
      by (cases "t_pc s t'") (auto simp: step_simps split: if_splits)
  qed
  moreover from g lt have "global_ok sa_obj ?s'"
    by (auto simp: step_simps split: if_splits)
  ultimately show ?thesis by (simp add: inv_def)
qed

lemma inv_E_test_Some:
  assumes i: "inv sa_obj s" and p: "t_pc s t = E_test (Some c)"
  shows "inv sa_obj (goto t (G_acquire True c) s)"
proof -
  let ?s' = "goto t (G_acquire True c) s"
  from inv_local [OF i, of t] p have lt: "local_ok sa_obj s t (E_test (Some c))" by simp
  note g = inv_global [OF i]
  have "local_ok sa_obj ?s' t' (t_pc ?s' t')" for t'
  proof (cases "t' = t")
    case True
    with lt g show ?thesis by (auto simp: step_simps split: if_splits)
  next
    case False
    from inv_local [OF i, of t'] have "local_ok sa_obj s t' (t_pc s t')" .
    with False lt g show ?thesis
      by (cases "t_pc s t'") (auto simp: step_simps split: if_splits)
  qed
  moreover from g lt have "global_ok sa_obj ?s'"
    by (auto simp: step_simps split: if_splits)
  ultimately show ?thesis by (simp add: inv_def)
qed

lemma inv_E_new:
  assumes i: "inv sa_obj s" and p: "t_pc s t = E_new"
  shows "inv sa_obj (goto t (E_install (t_n_conns s))
            (s\<lparr>t_conns := (t_conns s)(t_n_conns s := EngineConnector_init),
               t_locks := (t_locks s)(t_n_conns s := None),
               t_n_conns := Suc (t_n_conns s)\<rparr>))"
proof -
  let ?s' = "goto t (E_install (t_n_conns s))
            (s\<lparr>t_conns := (t_conns s)(t_n_conns s := EngineConnector_init),
               t_locks := (t_locks s)(t_n_conns s := None),
               t_n_conns := Suc (t_n_conns s)\<rparr>)"
  from inv_local [OF i, of t] p have lt: "local_ok sa_obj s t (E_new)" by simp
  note g = inv_global [OF i]
  have "local_ok sa_obj ?s' t' (t_pc ?s' t')" for t'
  proof (cases "t' = t")
    case True
    with lt g show ?thesis by (auto simp: step_simps split: if_splits)
  next
    case False
    from inv_local [OF i, of t'] have "local_ok sa_obj s t' (t_pc s t')" .
    with False lt g show ?thesis
      by (cases "t_pc s t'") (auto simp: step_simps split: if_splits)
  qed
  moreover from g lt have "global_ok sa_obj ?s'"
    by (auto simp: step_simps split: if_splits)
  ultimately show ?thesis by (simp add: inv_def)
qed

lemma inv_E_install:
  assumes i: "inv sa_obj s" and p: "t_pc s t = E_install c"
  shows "inv sa_obj (goto t (G_acquire True c)
            (s\<lparr>t_connector := Some c, t_installed := t_installed s @ [c]\<rparr>))"
proof -
  let ?s' = "goto t (G_acquire True c)
            (s\<lparr>t_connector := Some c, t_installed := t_installed s @ [c]\<rparr>)"
  from inv_local [OF i, of t] p have lt: "local_ok sa_obj s t (E_install c)" by simp
  note g = inv_global [OF i]
  have "local_ok sa_obj ?s' t' (t_pc ?s' t')" for t'
  proof (cases "t' = t")
    case True
    with lt g show ?thesis by (auto simp: step_simps split: if_splits)
  next
    case False
    from inv_local [OF i, of t'] have "local_ok sa_obj s t' (t_pc s t')" .
    with False lt g show ?thesis
      by (cases "t_pc s t'") (auto simp: step_simps split: if_splits)
  qed
  moreover from g lt have "global_ok sa_obj ?s'"
    by (auto simp: step_simps split: if_splits)
  ultimately show ?thesis by (simp add: inv_def)
qed

lemma inv_G_acquire:
  assumes i: "inv sa_obj s" and p: "t_pc s t = G_acquire b c" and x: "t_locks s c = None"
  shows "inv sa_obj (goto t (G_check b c) (s\<lparr>t_locks := (t_locks s)(c := Some t)\<rparr>))"
proof -
  let ?s' = "goto t (G_check b c) (s\<lparr>t_locks := (t_locks s)(c := Some t)\<rparr>)"
  from inv_local [OF i, of t] p have lt: "local_ok sa_obj s t (G_acquire b c)" by simp
  note g = inv_global [OF i]
  have "local_ok sa_obj ?s' t' (t_pc ?s' t')" for t'
  proof (cases "t' = t")
    case True
    with lt g x show ?thesis by (auto simp: step_simps split: if_splits)
  next
    case False
    from inv_local [OF i, of t'] have "local_ok sa_obj s t' (t_pc s t')" .
    with False lt g x show ?thesis
      by (cases "t_pc s t'") (auto simp: step_simps split: if_splits)
  qed
  moreover from g lt x have "global_ok sa_obj ?s'"
    by (auto simp: step_simps split: if_splits)
  ultimately show ?thesis by (simp add: inv_def)
qed

lemma inv_G_check_hit:
  assumes i: "inv sa_obj s" and p: "t_pc s t = G_check b c" and x: "is_connected_for sa_obj (t_conns s c)"
  shows "inv sa_obj (goto t (G_release b c (Inr (c_engine (t_conns s c)))) s)"
proof -
  let ?s' = "goto t (G_release b c (Inr (c_engine (t_conns s c)))) s"
  from inv_local [OF i, of t] p have lt: "local_ok sa_obj s t (G_check b c)" by simp
  note g = inv_global [OF i]
  have "local_ok sa_obj ?s' t' (t_pc ?s' t')" for t'
  proof (cases "t' = t")
    case True
    with lt g x show ?thesis by (auto simp: step_simps split: if_splits)
  next
    case False
    from inv_local [OF i, of t'] have "local_ok sa_obj s t' (t_pc s t')" .
    with False lt g x show ?thesis
      by (cases "t_pc s t'") (auto simp: step_simps split: if_splits)
  qed
  moreover from g lt x have "global_ok sa_obj ?s'"
    by (auto simp: step_simps split: if_splits)
  ultimately show ?thesis by (simp add: inv_def)
qed

lemma inv_G_check_miss:
  assumes i: "inv sa_obj s" and p: "t_pc s t = G_check b c" and x: "\<not> is_connected_for sa_obj (t_conns s c)"
  shows "inv sa_obj (goto t (G_create b c) s)"
proof -
  let ?s' = "goto t (G_create b c) s"
  from inv_local [OF i, of t] p have lt: "local_ok sa_obj s t (G_check b c)" by simp
  note g = inv_global [OF i]
  have "local_ok sa_obj ?s' t' (t_pc ?s' t')" for t'
  proof (cases "t' = t")
    case True
    with lt g x show ?thesis by (auto simp: step_simps split: if_splits)
  next
    case False
    from inv_local [OF i, of t'] have "local_ok sa_obj s t' (t_pc s t')" .
    with False lt g x show ?thesis
      by (cases "t_pc s t'") (auto simp: step_simps split: if_splits)
  qed
  moreover from g lt x have "global_ok sa_obj ?s'"
    by (auto simp: step_simps split: if_splits)
  ultimately show ?thesis by (simp add: inv_def)
qed

lemma inv_G_create_raises:
  assumes i: "inv sa_obj s" and p: "t_pc s t = G_create b c"
  shows "inv sa_obj (goto t (G_release b c (Inl e)) s)"
proof -
  let ?s' = "goto t (G_release b c (Inl e)) s"
  from inv_local [OF i, of t] p have lt: "local_ok sa_obj s t (G_create b c)" by simp
  note g = inv_global [OF i]
  have "local_ok sa_obj ?s' t' (t_pc ?s' t')" for t'
  proof (cases "t' = t")
    case True
    with lt g show ?thesis by (auto simp: step_simps split: if_splits)
  next
    case False
    from inv_local [OF i, of t'] have "local_ok sa_obj s t' (t_pc s t')" .
    with False lt g show ?thesis
      by (cases "t_pc s t'") (auto simp: step_simps split: if_splits)
  qed
  moreover from g lt have "global_ok sa_obj ?s'"
    by (auto simp: step_simps split: if_splits)
  ultimately show ?thesis by (simp add: inv_def)
qed

lemma inv_G_create:
  assumes i: "inv sa_obj s" and p: "t_pc s t = G_create b c"
  shows "inv sa_obj (goto t (G_set_engine b c (length (t_engines s)))
                 (s\<lparr>t_engines := t_engines s @ [(info sa_obj, options sa_obj)]\<rparr>))"
proof -
  let ?s' = "goto t (G_set_engine b c (length (t_engines s)))
                 (s\<lparr>t_engines := t_engines s @ [(info sa_obj, options sa_obj)]\<rparr>)"
  from inv_local [OF i, of t] p have lt: "local_ok sa_obj s t (G_create b c)" by simp
  note g = inv_global [OF i]
  have "local_ok sa_obj ?s' t' (t_pc ?s' t')" for t'
  proof (cases "t' = t")
    case True
    with lt g show ?thesis by (auto simp: step_simps split: if_splits)
  next
    case False
    from inv_local [OF i, of t'] have "local_ok sa_obj s t' (t_pc s t')" .
    with False lt g show ?thesis
      by (cases "t_pc s t'") (auto simp: step_simps split: if_splits)
  qed
  moreover from g lt have "global_ok sa_obj ?s'"
    by (auto simp: step_simps split: if_splits)
  ultimately show ?thesis by (simp add: inv_def)
qed

lemma inv_G_set_engine:
  assumes i: "inv sa_obj s" and p: "t_pc s t = G_set_engine b c e"
  shows "inv sa_obj (goto t (G_set_key b c e)
            (s\<lparr>t_conns := (t_conns s)(c := (t_conns s c)\<lparr>c_engine := Some e\<rparr>)\<rparr>))"
proof -
  let ?s' = "goto t (G_set_key b c e)
            (s\<lparr>t_conns := (t_conns s)(c := (t_conns s c)\<lparr>c_engine := Some e\<rparr>)\<rparr>)"
  from inv_local [OF i, of t] p have lt: "local_ok sa_obj s t (G_set_engine b c e)" by simp
  note g = inv_global [OF i]
  have "local_ok sa_obj ?s' t' (t_pc ?s' t')" for t'
  proof (cases "t' = t")
    case True
    with lt g show ?thesis by (auto simp: step_simps split: if_splits)
  next
    case False
    from inv_local [OF i, of t'] have "local_ok sa_obj s t' (t_pc s t')" .
    with False lt g show ?thesis
      by (cases "t_pc s t'") (auto simp: step_simps split: if_splits)
  qed
  moreover from g lt have "global_ok sa_obj ?s'"
    by (auto simp: step_simps split: if_splits)
  ultimately show ?thesis by (simp add: inv_def)
qed

lemma inv_G_set_key:
  assumes i: "inv sa_obj s" and p: "t_pc s t = G_set_key b c e"
  shows "inv sa_obj (goto t (G_release b c (Inr (Some e)))
            (s\<lparr>t_conns := (t_conns s)
                 (c := (t_conns s c)\<lparr>c_connected_for := Some (connected_key sa_obj)\<rparr>)\<rparr>))"
proof -
  let ?s' = "goto t (G_release b c (Inr (Some e)))
            (s\<lparr>t_conns := (t_conns s)
                 (c := (t_conns s c)\<lparr>c_connected_for := Some (connected_key sa_obj)\<rparr>)\<rparr>)"
  from inv_local [OF i, of t] p have lt: "local_ok sa_obj s t (G_set_key b c e)" by simp
  note g = inv_global [OF i]
  have "local_ok sa_obj ?s' t' (t_pc ?s' t')" for t'
  proof (cases "t' = t")
    case True
    with lt g show ?thesis by (auto simp: step_simps split: if_splits)
  next
    case False
    from inv_local [OF i, of t'] have "local_ok sa_obj s t' (t_pc s t')" .
    with False lt g show ?thesis
      by (cases "t_pc s t'") (auto simp: step_simps split: if_splits)
  qed
  moreover from g lt have "global_ok sa_obj ?s'"
    by (auto simp: step_simps split: if_splits)
  ultimately show ?thesis by (simp add: inv_def)
qed

lemma inv_G_release:
  assumes i: "inv sa_obj s" and p: "t_pc s t = G_release b c r"
  shows "inv sa_obj (goto t (if b then E_release r else Done r)
            (s\<lparr>t_locks := (t_locks s)(c := None)\<rparr>))"
proof -
  let ?s' = "goto t (if b then E_release r else Done r)
            (s\<lparr>t_locks := (t_locks s)(c := None)\<rparr>)"
  from inv_local [OF i, of t] p have lt: "local_ok sa_obj s t (G_release b c r)" by simp
  note g = inv_global [OF i]
  have "local_ok sa_obj ?s' t' (t_pc ?s' t')" for t'
  proof (cases "t' = t")
    case True
    with lt g show ?thesis by (auto simp: step_simps split: if_splits)
  next
    case False
    from inv_local [OF i, of t'] have "local_ok sa_obj s t' (t_pc s t')" .
    with False lt g show ?thesis
      by (cases "t_pc s t'") (auto simp: step_simps split: if_splits)
  qed
  moreover from g lt have "global_ok sa_obj ?s'"
    by (auto simp: step_simps split: if_splits)
  ultimately show ?thesis by (simp add: inv_def)
qed

lemma inv_E_release:
  assumes i: "inv sa_obj s" and p: "t_pc s t = E_release r"
  shows "inv sa_obj (goto t (Done r) (s\<lparr>t_engine_lock := None\<rparr>))"
proof -
  let ?s' = "goto t (Done r) (s\<lparr>t_engine_lock := None\<rparr>)"
  from inv_local [OF i, of t] p have lt: "local_ok sa_obj s t (E_release r)" by simp
  note g = inv_global [OF i]
  have "local_ok sa_obj ?s' t' (t_pc ?s' t')" for t'
  proof (cases "t' = t")
    case True
    with lt g show ?thesis by (auto simp: step_simps split: if_splits)
  next
    case False
    from inv_local [OF i, of t'] have "local_ok sa_obj s t' (t_pc s t')" .
    with False lt g show ?thesis
      by (cases "t_pc s t'") (auto simp: step_simps split: if_splits)
  qed
  moreover from g lt have "global_ok sa_obj ?s'"
    by (auto simp: step_simps split: if_splits)
  ultimately show ?thesis by (simp add: inv_def)
qed

lemma inv_Done:
  assumes i: "inv sa_obj s" and p: "t_pc s t = Done r"
  shows "inv sa_obj (goto t Idle s)"
proof -
  let ?s' = "goto t Idle s"
  from inv_local [OF i, of t] p have lt: "local_ok sa_obj s t (Done r)" by simp
  note g = inv_global [OF i]
  have "local_ok sa_obj ?s' t' (t_pc ?s' t')" for t'
  proof (cases "t' = t")
    case True
    with lt g show ?thesis by (auto simp: step_simps split: if_splits)
  next
    case False
    from inv_local [OF i, of t'] have "local_ok sa_obj s t' (t_pc s t')" .
    with False lt g show ?thesis
      by (cases "t_pc s t'") (auto simp: step_simps split: if_splits)
  qed
  moreover from g lt have "global_ok sa_obj ?s'"
    by (auto simp: step_simps split: if_splits)
  ultimately show ?thesis by (simp add: inv_def)
qed

lemma inv_step:
  assumes i: "inv sa_obj s" and st: "step create_engine sa_obj t choice s = Some s'"
  shows "inv sa_obj s'"
proof (cases "t_pc s t")
  case Idle
  with i st show ?thesis
    by (auto simp: step_def split: call_choice.splits option.splits
        intro: inv_Idle_property inv_Idle_no_connector inv_Idle_get_engine)
next
  case E_acquire
  with i st show ?thesis
    by (auto simp: step_def split: if_splits intro: inv_E_acquire)
next
  case E_read
  with i st show ?thesis
    by (auto simp: step_def intro: inv_E_read)
next
  case (E_test x)
  with i st show ?thesis
    by (cases x) (auto simp: step_def intro: inv_E_test_None inv_E_test_Some)
next
  case E_new
  with i st show ?thesis
    by (auto simp: step_def intro: inv_E_new)
next
  case (E_install c)
  with i st show ?thesis
    by (auto simp: step_def intro: inv_E_install)
next
  case (G_acquire b c)
  with i st show ?thesis
    by (auto simp: step_def split: if_splits intro: inv_G_acquire)
next
  case (G_check b c)
  with i st show ?thesis
    by (auto simp: step_def split: if_splits intro: inv_G_check_hit inv_G_check_miss)
next
  case (G_create b c)
  with i st show ?thesis
    by (auto simp: step_def split: option.splits intro: inv_G_create inv_G_create_raises)
next
  case (G_set_engine b c e)
  with i st show ?thesis
    by (auto simp: step_def intro: inv_G_set_engine)
next
  case (G_set_key b c e)
  with i st show ?thesis
    by (auto simp: step_def intro: inv_G_set_key)
next
  case (G_release b c r)
  with i st inv_G_release [OF i G_release] show ?thesis
    by (auto simp: step_def)
next
  case (E_release r)
  with i st show ?thesis
    by (auto simp: step_def intro: inv_E_release)
next
  case (Done r)
  with i st show ?thesis
    by (auto simp: step_def intro: inv_Done)
qed

lemma inv_run:
  "inv sa_obj s \<Longrightarrow> run create_engine sa_obj schedule s = Some s' \<Longrightarrow> inv sa_obj s'"
proof (induction schedule arbitrary: s)
  case Nil
  then show ?case by simp
next
  case (Cons a schedule)
  obtain t choice where a: "a = (t, choice)" by (cases a)
  from Cons.prems(2) a obtain s1 where s1: "step create_engine sa_obj t choice s = Some s1"
    and r: "run create_engine sa_obj schedule s1 = Some s'"
    by (auto split: option.splits)
  from inv_step [OF Cons.prems(1) s1] have "inv sa_obj s1" .
  from Cons.IH [OF this r] show ?case .
qed

lemma inv_locks:
  assumes "inv sa_obj s"
  shows "(\<forall>t c. t_pc s t = E_install c \<longrightarrow> t_engine_lock s = Some t) \<and>
     (\<forall>t b c. t_pc s t = G_create b c \<longrightarrow> t_locks s c = Some t)"
proof (intro conjI allI impI)
  fix t c assume "t_pc s t = E_install c"
  with inv_local [OF assms, of t] show "t_engine_lock s = Some t" by simp
next
  fix t b c assume "t_pc s t = G_create b c"
  with inv_local [OF assms, of t] show "t_locks s c = Some t" by simp
qed

text \<open>
  C8, amended. In every interleaving of calls of the property \<open>engine\<close> and of
  \<open>get_engine\<close> on the installed connector by any number of threads, made while the
  \<open>uri\<close> and the options of the object do not change: at most one connector is ever
  installed on the object and at most one engine is created; a thread about to
  install a connector holds the lock of the object, and a thread about to create an
  engine holds the lock of the connector.
\<close>

theorem engine_thread_safe:
  "run create_engine sa_obj schedule threads_init = Some s \<longrightarrow>
     length (t_installed s) \<le> 1 \<and> length (t_engines s) \<le> 1 \<and>
     (\<forall>t c. t_pc s t = E_install c \<longrightarrow> t_engine_lock s = Some t) \<and>
     (\<forall>t b c. t_pc s t = G_create b c \<longrightarrow> t_locks s c = Some t)"
proof
  assume "run create_engine sa_obj schedule threads_init = Some s"
  from inv_run [OF inv_init this] have i: "inv sa_obj s" .
  from inv_bounds [OF i] inv_locks [OF i]
  show "length (t_installed s) \<le> 1 \<and> length (t_engines s) \<le> 1 \<and>
     (\<forall>t c. t_pc s t = E_install c \<longrightarrow> t_engine_lock s = Some t) \<and>
     (\<forall>t b c. t_pc s t = G_create b c \<longrightarrow> t_locks s c = Some t)"
    by blast
qed

lemma run_interleaving:
  "run create_engine_example ActiveAlchemy_sqlite interleaving threads_init = Some threads_final"
  by (simp add: interleaving_def threads_init_def threads_final_def step_def goto_def
      fun_eq_iff is_connected_for_def key_eq_def py_eq_def connected_key_def dict_get_def
      create_engine_example_def ActiveAlchemy_sqlite_def EngineConnector_init_def)

theorem engine_thread_safe_witness:
  "run create_engine_example ActiveAlchemy_sqlite interleaving threads_init = Some threads_final \<and>
   t_installed threads_final = [0] \<and>
   length (t_installed threads_final) \<le> 1 \<and> length (t_engines threads_final) \<le> 1 \<and>
   t_pc threads_final 0 = Done (Inr (Some 0)) \<and> t_pc threads_final 1 = Done (Inr (Some 0)) \<and>
   t_pc threads_final 2 = Done (Inr (Some 0))"
  using engine_thread_safe [of create_engine_example ActiveAlchemy_sqlite interleaving
      threads_final] run_interleaving
  by (simp add: threads_final_def)

text \<open>
  C8 as stated, one engine for each key, fails already when one thread makes the
  calls one after the other: with the key of the object changed and then changed back
  between the calls, \<open>get_engine\<close> creates engines 0, 1 and 2, and engines 0 and 2
  are both for the first key.
\<close>

theorem engine_per_key_counterexample:
  "connected_key ActiveAlchemy_sqlite = (Some ''sqlite:///app.db'', VBool False) \<and>
   get_engine create_engine_example ActiveAlchemy_sqlite EngineConnector_init []
     = (Inr (Some 0),
        \<lparr>c_engine = Some 0, c_connected_for = Some (Some ''sqlite:///app.db'', VBool False)\<rparr>,
        [(Some (URL ''sqlite:///app.db''), [(''echo'', VBool False)])]) \<and>
   get_engine create_engine_example ActiveAlchemy_moved
       \<lparr>c_engine = Some 0, c_connected_for = Some (Some ''sqlite:///app.db'', VBool False)\<rparr>
       [(Some (URL ''sqlite:///app.db''), [(''echo'', VBool False)])]
     = (Inr (Some 1),
        \<lparr>c_engine = Some 1, c_connected_for = Some (Some ''sqlite:///other.db'', VBool False)\<rparr>,
        [(Some (URL ''sqlite:///app.db''), [(''echo'', VBool False)]),
         (Some (URL ''sqlite:///other.db''), [(''echo'', VBool False)])]) \<and>
   get_engine create_engine_example ActiveAlchemy_sqlite
       \<lparr>c_engine = Some 1, c_connected_for = Some (Some ''sqlite:///other.db'', VBool False)\<rparr>
       [(Some (URL ''sqlite:///app.db''), [(''echo'', VBool False)]),
        (Some (URL ''sqlite:///other.db''), [(''echo'', VBool False)])]
     = (Inr (Some 2),
        \<lparr>c_engine = Some 2, c_connected_for = Some (Some ''sqlite:///app.db'', VBool False)\<rparr>,
        [(Some (URL ''sqlite:///app.db''), [(''echo'', VBool False)]),
         (Some (URL ''sqlite:///other.db''), [(''echo'', VBool False)]),
         (Some (URL ''sqlite:///app.db''), [(''echo'', VBool False)])])"
  by (simp add: get_engine_def is_connected_for_def key_eq_def py_eq_def connected_key_def
      dict_get_def create_engine_example_def ActiveAlchemy_sqlite_def ActiveAlchemy_moved_def
      EngineConnector_init_def)

end
